theory Spec2Isabelle
  imports Main "HOL-Library.Signed_Division"
begin

section \<open>Run-time failures and results\<close>

text \<open>
  A Go panic ends the rendering, so every function that can panic returns a sum: \<open>Inl\<close>
  carries the kind of panic, \<open>Inr\<close> the value. The renderer recurses through the block
  index, which may be cyclic; the recursion is modelled with fuel and \<open>OutOfFuel\<close> is the
  answer of a call that did not come back within the fuel given.
\<close>

datatype error = NilDereference | DivideByZero | IndexOutOfRange | NegativeRepeat | OutOfFuel

type_synonym 'a result = "error + 'a"

definition rbind :: "'a result \<Rightarrow> ('a \<Rightarrow> 'b result) \<Rightarrow> 'b result" where
  "rbind m f = (case m of Inl e \<Rightarrow> Inl e | Inr x \<Rightarrow> f x)"

section \<open>Strings\<close>

text \<open>Go strings are byte sequences; \<open>string\<close> is a list of bytes as well.\<close>

abbreviation NL :: char where "NL \<equiv> CHR 0x0A"
abbreviation TAB :: char where "TAB \<equiv> CHR 0x09"
abbreviation DQ :: char where "DQ \<equiv> CHR 0x22"
abbreviation BQ :: char where "BQ \<equiv> CHR 0x60"

text \<open>\<open>fmt.Sprintf("%d", n)\<close> for a non-negative \<open>n\<close>.\<close>

definition digit :: "nat \<Rightarrow> char" where
  "digit d = ''0123456789'' ! d"

fun itoa :: "nat \<Rightarrow> string" where
  "itoa n = (if n < 10 then [digit n] else itoa (n div 10) @ [digit (n mod 10)])"

declare itoa.simps [simp del]

text \<open>\<open>strings.Repeat\<close> panics on a negative count.\<close>

definition Repeat :: "string \<Rightarrow> int \<Rightarrow> string result" where
  "Repeat s k = (if k < 0 then Inl NegativeRepeat else Inr (concat (replicate (nat k) s)))"

text \<open>\<open>strings.TrimRight(s, "\n")\<close>: every trailing newline goes.\<close>

definition TrimRightNL :: "string \<Rightarrow> string" where
  "TrimRightNL s = rev (dropWhile (\<lambda>c. c = NL) (rev s))"

text \<open>\<open>strings.TrimSuffix(s, "\n")\<close>: at most one trailing newline goes.\<close>

definition TrimSuffixNL :: "string \<Rightarrow> string" where
  "TrimSuffixNL s = (if s \<noteq> [] \<and> last s = NL then butlast s else s)"

text \<open>\<open>strings.ReplaceAll(s, "\n", "")\<close>.\<close>

definition RemoveNL :: "string \<Rightarrow> string" where
  "RemoveNL s = filter (\<lambda>c. c \<noteq> NL) s"

text \<open>
  \<open>strings.TrimSpace\<close> on the one-byte white space (space, \<open>\t \n \v \f \r\<close>); the
  multi-byte Unicode spaces that Go trims as well are left in place by this model.
\<close>

definition isSpace :: "char \<Rightarrow> bool" where
  "isSpace c = (c \<in> set [CHR '' '', TAB, NL, CHR 0x0B, CHR 0x0C, CHR 0x0D])"

definition TrimSpace :: "string \<Rightarrow> string" where
  "TrimSpace s = rev (dropWhile isSpace (rev (dropWhile isSpace s)))"

section \<open>The data model: inline elements\<close>

record DocxTextElementStyleLink =
  LinkURL :: string

record DocxTextElementStyle =
  Bold :: bool
  Italic :: bool
  Strikethrough :: bool
  Underline :: bool
  InlineCode :: bool
  Link :: "DocxTextElementStyleLink option"

record DocxTextElementTextRun =
  Content :: string
  TextElementStyle :: "DocxTextElementStyle option"

record DocxTextElementMentionUser =
  UserID :: string

record DocxTextElementMentionDoc =
  Title :: string
  URL :: string

record DocxTextElementEquation =
  EquationContent :: string

text \<open>
  A text element holds one pointer per variant; the renderer tests each pointer on its
  own, so the model keeps the four options side by side. The field \<open>InlineEquation\<close> is
  the Go field \<open>Equation\<close> of \<open>DocxTextElement\<close>.
\<close>

record DocxTextElement =
  TextRun :: "DocxTextElementTextRun option"
  MentionUser :: "DocxTextElementMentionUser option"
  MentionDoc :: "DocxTextElementMentionDoc option"
  InlineEquation :: "DocxTextElementEquation option"

record DocxBlockTextStyle =
  Done :: bool
  Language :: int

record DocxBlockText =
  Style :: "DocxBlockTextStyle option"
  Elements :: "DocxTextElement list"

section \<open>The data model: blocks\<close>

record DocxBlockImage =
  ImageToken :: string

record DocxBlockFile =
  FileName :: string
  FileToken :: string

record DocxBlockSheet =
  SheetToken :: string

record DocxBlockBitable =
  BitableToken :: string

record DocxBlockDiagram =
  DiagramType :: int

record DocxBlockIframeComponent =
  IframeType :: int
  ComponentURL :: string

record DocxBlockIframe =
  Component :: "DocxBlockIframeComponent option"

record DocxBlockTablePropertyMergeInfo =
  RowSpan :: int
  ColSpan :: int

record DocxBlockTableProperty =
  RowSize :: int
  ColumnSize :: int
  MergeInfo :: "DocxBlockTablePropertyMergeInfo option list"

record DocxBlockTable =
  Cells :: "string list"
  Property :: "DocxBlockTableProperty option"

text \<open>
  The block types the dispatcher names; every other type tag of the remote API is
  \<open>DocxBlockTypeOther\<close> with its number and takes the \<open>default\<close> branch, as the
  grid column does.
\<close>

datatype DocxBlockType =
  DocxBlockTypePage | DocxBlockTypeText
| DocxBlockTypeHeading1 | DocxBlockTypeHeading2 | DocxBlockTypeHeading3
| DocxBlockTypeHeading4 | DocxBlockTypeHeading5 | DocxBlockTypeHeading6
| DocxBlockTypeHeading7 | DocxBlockTypeHeading8 | DocxBlockTypeHeading9
| DocxBlockTypeBullet | DocxBlockTypeOrdered | DocxBlockTypeCode | DocxBlockTypeQuote
| DocxBlockTypeEquation | DocxBlockTypeTodo | DocxBlockTypeBitable | DocxBlockTypeCallout
| DocxBlockTypeDiagram | DocxBlockTypeDivider | DocxBlockTypeFile | DocxBlockTypeGrid
| DocxBlockTypeGridColumn | DocxBlockTypeIframe | DocxBlockTypeImage | DocxBlockTypeSheet
| DocxBlockTypeTable | DocxBlockTypeTableCell | DocxBlockTypeQuoteContainer
| DocxBlockTypeOther int

text \<open>
  A block keeps one pointer per payload; the type tag says which one the renderer reads,
  and a nil pointer is \<open>None\<close>.
\<close>

record DocxBlock =
  BlockID :: string
  ParentID :: string
  Children :: "string list"
  BlockType :: DocxBlockType
  Page :: "DocxBlockText option"
  Text :: "DocxBlockText option"
  Heading1 :: "DocxBlockText option"
  Heading2 :: "DocxBlockText option"
  Heading3 :: "DocxBlockText option"
  Heading4 :: "DocxBlockText option"
  Heading5 :: "DocxBlockText option"
  Heading6 :: "DocxBlockText option"
  Heading7 :: "DocxBlockText option"
  Heading8 :: "DocxBlockText option"
  Heading9 :: "DocxBlockText option"
  Bullet :: "DocxBlockText option"
  Ordered :: "DocxBlockText option"
  Code :: "DocxBlockText option"
  Quote :: "DocxBlockText option"
  Equation :: "DocxBlockText option"
  Todo :: "DocxBlockText option"
  Image :: "DocxBlockImage option"
  File :: "DocxBlockFile option"
  Bitable :: "DocxBlockBitable option"
  Diagram :: "DocxBlockDiagram option"
  Iframe :: "DocxBlockIframe option"
  Table :: "DocxBlockTable option"
  Sheet :: "DocxBlockSheet option"

record DocxDocument =
  DocumentID :: string
  RevisionID :: int
  DocumentTitle :: string

section \<open>Collaborators\<close>

text \<open>
  The remote service is a record of its answers. A Go \<open>error\<close> is the text of its
  message. A download answers with an error, with a nil response, or with a file name
  and the bytes of the file. \<open>GetSheetContent\<close> and \<open>GetBitableContent\<close> stand for
  the two client methods of these names, which are network calls whose answer the
  renderer only formats.
\<close>

type_synonym go_error = string

record DownloadResp =
  Filename :: string
  FileBytes :: string

record Client =
  DownloadDriveFile :: "string \<Rightarrow> go_error + DownloadResp option"
  DownloadDriveMedia :: "string \<Rightarrow> go_error + DownloadResp option"
  GetSheetContent :: "string \<Rightarrow> go_error + string list list"
  GetBitableContent :: "string \<Rightarrow> go_error + string list list"

text \<open>
  What the code takes from outside \<open>src/\<close>: \<open>utils.UnescapeURL\<close>, \<open>filepath.Join\<close> and
  \<open>filepath.Dir\<close>, and the failures of the local file system. \<open>SaveMedia path bytes\<close>
  is the outcome of the sequence \<open>os.MkdirAll\<close>, \<open>os.OpenFile\<close>, \<open>ReadFrom\<close> of the
  file block: the number of bytes written, or \<open>None\<close> when one of the three failed.
  \<open>MkdirAllErr\<close>, \<open>WriteFileErr\<close>, \<open>OpenFileErr\<close> and \<open>CopyErr\<close> say for each path
  whether the operation fails there, and with which error.
\<close>

record env =
  UnescapeURL :: "string \<Rightarrow> string"
  Join :: "string \<Rightarrow> string \<Rightarrow> string"
  Dir :: "string \<Rightarrow> string"
  SaveMedia :: "string \<Rightarrow> string \<Rightarrow> nat option"
  MkdirAllErr :: "string \<Rightarrow> go_error option"
  WriteFileErr :: "string \<Rightarrow> go_error option"
  OpenFileErr :: "string \<Rightarrow> go_error option"
  CopyErr :: "string \<Rightarrow> go_error option"

section \<open>The parser\<close>

datatype Context = Background

record Parser =
  client :: "Client option"
  useHTMLTags :: bool
  ImgTokens :: "string list"
  blockMap :: "string \<rightharpoonup> DocxBlock"
  ctx :: "Context option"
  outputDir :: string

record OutputConfig =
  UseHTMLTags :: bool

definition NewParser :: "OutputConfig \<Rightarrow> Client option \<Rightarrow> Parser" where
  "NewParser config c =
     \<lparr>client = c, useHTMLTags = UseHTMLTags config, ImgTokens = [],
      blockMap = Map.empty, ctx = Some Background, outputDir = []\<rparr>"

text \<open>
  The table of code languages. The keys are the lark constants
  \<open>DocxCodeLanguagePlainText\<close> ... \<open>DocxCodeLanguageYAML\<close>, which are the numbers 1 to
  67 of the remote API in the order of the table; a language that is not in the table
  reads as the empty string, as a missing key of a Go map does.
\<close>

definition DocxCodeLang2MdStr :: "(int \<times> string) list" where
  "DocxCodeLang2MdStr =
     [(1, []), (2, ''abap''), (3, ''ada''), (4, ''apache''), (5, ''apex''),
      (6, ''assembly''), (7, ''bash''), (8, ''csharp''), (9, ''cpp''), (10, ''c''),
      (11, ''cobol''), (12, ''css''), (13, ''coffeescript''), (14, ''d''), (15, ''dart''),
      (16, ''delphi''), (17, ''django''), (18, ''dockerfile''), (19, ''erlang''),
      (20, ''fortran''), (21, ''foxpro''), (22, ''go''), (23, ''groovy''), (24, ''html''),
      (25, ''htmlbars''), (26, ''http''), (27, ''haskell''), (28, ''json''), (29, ''java''),
      (30, ''javascript''), (31, ''julia''), (32, ''kotlin''), (33, ''latex''),
      (34, ''lisp''), (35, ''logo''), (36, ''lua''), (37, ''matlab''), (38, ''makefile''),
      (39, ''markdown''), (40, ''nginx''), (41, ''objectivec''), (42, ''openedge-abl''),
      (43, ''php''), (44, ''perl''), (45, ''postscript''), (46, ''powershell''),
      (47, ''prolog''), (48, ''protobuf''), (49, ''python''), (50, ''r''), (51, ''rpg''),
      (52, ''ruby''), (53, ''rust''), (54, ''sas''), (55, ''scss''), (56, ''sql''),
      (57, ''scala''), (58, ''scheme''), (59, ''scratch''), (60, ''shell''), (61, ''swift''),
      (62, ''thrift''), (63, ''typescript''), (64, ''vbscript''), (65, ''vbnet''),
      (66, ''xml''), (67, ''yaml'')]"

definition codeLang :: "int \<Rightarrow> string" where
  "codeLang l = (case map_of DocxCodeLang2MdStr l of None \<Rightarrow> [] | Some s \<Rightarrow> s)"

subsection \<open>Inline text\<close>

definition ParseDocxTextElementTextRun ::
  "env \<Rightarrow> Parser \<Rightarrow> DocxTextElementTextRun \<Rightarrow> string" where
  "ParseDocxTextElementTextRun E p tr =
     (let (pre, postWrite) =
        (case TextElementStyle tr of
           None \<Rightarrow> ([], [])
         | Some style \<Rightarrow>
             if Bold style then
               (if useHTMLTags p then (''<strong>'', ''</strong>'') else (''**'', ''**''))
             else if Italic style then
               (if useHTMLTags p then (''<em>'', ''</em>'') else (''_'', ''_''))
             else if Strikethrough style then
               (if useHTMLTags p then (''<del>'', ''</del>'') else (''~~'', ''~~''))
             else if Underline style then (''<u>'', ''</u>'')
             else if InlineCode style then ([BQ], [BQ])
             else (case Link style of
                     Some link \<Rightarrow> (''['', '']('' @ UnescapeURL E (LinkURL link) @ '')'')
                   | None \<Rightarrow> ([], [])))
      in pre @ Content tr @ postWrite)"

definition ParseDocxTextElement ::
  "env \<Rightarrow> Parser \<Rightarrow> DocxTextElement \<Rightarrow> bool \<Rightarrow> string" where
  "ParseDocxTextElement E p e inline =
     (case TextRun e of None \<Rightarrow> [] | Some tr \<Rightarrow> ParseDocxTextElementTextRun E p tr)
     @ (case MentionUser e of None \<Rightarrow> [] | Some u \<Rightarrow> UserID u)
     @ (case MentionDoc e of None \<Rightarrow> []
        | Some d \<Rightarrow> ''['' @ Title d @ '']('' @ UnescapeURL E (URL d) @ '')'')
     @ (case InlineEquation e of None \<Rightarrow> []
        | Some q \<Rightarrow>
            (let symbol = (if inline then ''$'' else ''$$'')
             in symbol @ TrimSuffixNL (EquationContent q) @ symbol))"

definition ParseDocxBlockText :: "env \<Rightarrow> Parser \<Rightarrow> DocxBlockText option \<Rightarrow> string result" where
  "ParseDocxBlockText E p b =
     (case b of
        None \<Rightarrow> Inl NilDereference
      | Some t \<Rightarrow>
          Inr (concat (map (\<lambda>e. ParseDocxTextElement E p e (length (Elements t) > 1))
                           (Elements t)) @ [NL]))"

subsection \<open>Blocks without children\<close>

definition ParseDocxBlockImage :: "Parser \<Rightarrow> DocxBlockImage option \<Rightarrow> (string \<times> Parser) result" where
  "ParseDocxBlockImage p img =
     (case img of
        None \<Rightarrow> Inl NilDereference
      | Some i \<Rightarrow>
          Inr (''![]('' @ ImageToken i @ '')'' @ [NL],
               p\<lparr>ImgTokens := ImgTokens p @ [ImageToken i]\<rparr>))"

text \<open>\<open>strings.Contains\<close>, and \<open>strings.ToLower\<close> on the letters A to Z.\<close>

definition Contains :: "string \<Rightarrow> string \<Rightarrow> bool" where
  "Contains s sub = list_ex (\<lambda>i. take (length sub) (drop i s) = sub) [0..<Suc (length s)]"

definition ToLower :: "string \<Rightarrow> string" where
  "ToLower s =
     map (\<lambda>c. let n = (of_char c :: nat) in if 65 \<le> n \<and> n \<le> 90 then char_of (n + 32) else c) s"

definition fileTypeOf :: "string \<Rightarrow> string" where
  "fileTypeOf fileName =
     (let l = ToLower fileName in
      if Contains l ''.mp4'' \<or> Contains l ''.mov'' \<or> Contains l ''.avi'' \<or> Contains l ''.mkv''
        then [CHR 0xE8, CHR 0xA7, CHR 0x86, CHR 0xE9, CHR 0xA2, CHR 0x91]
      else if Contains l ''.pdf'' then ''PDF''
      else if Contains l ''.doc'' \<or> Contains l ''.docx'' then ''Word'' @ [CHR 0xE6, CHR 0x96, CHR 0x87, CHR 0xE6, CHR 0xA1, CHR 0xA3]
      else if Contains l ''.xls'' \<or> Contains l ''.xlsx'' then ''Excel'' @ [CHR 0xE8, CHR 0xA1, CHR 0xA8, CHR 0xE6, CHR 0xA0, CHR 0xBC]
      else [CHR 0xE6, CHR 0x96, CHR 0x87, CHR 0xE4, CHR 0xBB, CHR 0xB6])"

text \<open>
  The download of a file block: tried only with a context, an output directory and a
  client; any failure on the way falls through to the placeholder.
\<close>

definition downloadFileBlock :: "env \<Rightarrow> Parser \<Rightarrow> DocxBlockFile \<Rightarrow> (string \<times> nat) option" where
  "downloadFileBlock E p file =
     (if ctx p \<noteq> None \<and> outputDir p \<noteq> [] then
        (case client p of
           None \<Rightarrow> None
         | Some c \<Rightarrow>
             (case DownloadDriveMedia c (FileToken file) of
                Inr (Some resp) \<Rightarrow>
                  (let downloadedFilename =
                         (if Filename resp = [] then FileToken file else Filename resp);
                       filePath = Join E (outputDir p) downloadedFilename
                   in (case SaveMedia E filePath (FileBytes resp) of
                         Some written \<Rightarrow> Some (filePath, written)
                       | None \<Rightarrow> None))
              | _ \<Rightarrow> None))
      else None)"

definition ParseDocxBlockFile :: "env \<Rightarrow> Parser \<Rightarrow> DocxBlockFile option \<Rightarrow> string result" where
  "ParseDocxBlockFile E p f =
     (case f of
        None \<Rightarrow> Inl NilDereference
      | Some file \<Rightarrow>
          (let fileName = (if FileName file \<noteq> [] then FileName file else FileToken file);
               fileType = fileTypeOf fileName;
               buf = [CHR 0x0A] @ ''**'' @ [CHR 0xE9, CHR 0x99, CHR 0x84, CHR 0xE4, CHR 0xBB, CHR 0xB6] @ ''**: '' @ fileName @ '' ('' @ fileType @ '')'' @ [CHR 0x0A, CHR 0x0A]
           in (case downloadFileBlock E p file of
                 Some (filePath, written) \<Rightarrow>
                   Inr (buf @ ''**'' @ [CHR 0xE4, CHR 0xB8, CHR 0x8B, CHR 0xE8, CHR 0xBD, CHR 0xBD, CHR 0xE6, CHR 0x88, CHR 0x90, CHR 0xE5, CHR 0x8A, CHR 0x9F] @ ''**: '' @ [CHR 0xE6, CHR 0x96, CHR 0x87, CHR 0xE4, CHR 0xBB, CHR 0xB6, CHR 0xE5, CHR 0xB7, CHR 0xB2, CHR 0xE4, CHR 0xBF, CHR 0x9D, CHR 0xE5, CHR 0xAD, CHR 0x98, CHR 0xE5, CHR 0x88, CHR 0xB0] @ '' '' @ [CHR 0x60] @ filePath @ [CHR 0x60] @ '' ('' @ [CHR 0xE5, CHR 0xA4, CHR 0xA7, CHR 0xE5, CHR 0xB0, CHR 0x8F] @ '': '' @ itoa written @ '' bytes)'' @ [CHR 0x0A, CHR 0x0A])
               | None \<Rightarrow>
                   Inr (buf @ ''**'' @ [CHR 0xE6, CHR 0x96, CHR 0x87, CHR 0xE4, CHR 0xBB, CHR 0xB6] @ ''Token**: '' @ [CHR 0x60] @ FileToken file @ [CHR 0x60, CHR 0x0A, CHR 0x0A]
                        @ ''**'' @ [CHR 0xE6, CHR 0x8F, CHR 0x90, CHR 0xE7, CHR 0xA4, CHR 0xBA] @ ''**: '' @ [CHR 0xE8, CHR 0xBF, CHR 0x99, CHR 0xE6, CHR 0x98, CHR 0xAF, CHR 0xE4, CHR 0xB8, CHR 0x80, CHR 0xE4, CHR 0xB8, CHR 0xAA] @ fileType @ [CHR 0xE9, CHR 0x99, CHR 0x84, CHR 0xE4, CHR 0xBB, CHR 0xB6, CHR 0xEF, CHR 0xBC, CHR 0x8C, CHR 0xE8, CHR 0xAF, CHR 0xB7, CHR 0xE8, CHR 0xAE, CHR 0xBF, CHR 0xE9, CHR 0x97, CHR 0xAE, CHR 0xE9, CHR 0xA3, CHR 0x9E, CHR 0xE4, CHR 0xB9, CHR 0xA6, CHR 0xE6, CHR 0x9F, CHR 0xA5, CHR 0xE7, CHR 0x9C, CHR 0x8B, CHR 0xE5, CHR 0x8E, CHR 0x9F, CHR 0xE5, CHR 0xA7, CHR 0x8B, CHR 0xE6, CHR 0x96, CHR 0x87, CHR 0xE4, CHR 0xBB, CHR 0xB6, CHR 0xE3, CHR 0x80, CHR 0x82, CHR 0x0A, CHR 0x0A]))))"

text \<open>The Markdown table of a sheet or a bitable: header, separator, data rows.\<close>

definition tableRow :: "string list \<Rightarrow> string" where
  "tableRow cells = ''|'' @ concat (map (\<lambda>cell. '' '' @ cell @ '' |'') cells) @ [NL]"

definition markdownTable :: "string list list \<Rightarrow> string" where
  "markdownTable values =
     [NL, NL] @ tableRow (hd values)
     @ ''|'' @ concat (map (\<lambda>_. '' --- |'') (hd values)) @ [NL]
     @ concat (map tableRow (tl values)) @ [NL]"

definition sheetPlaceholder :: "string \<Rightarrow> string \<Rightarrow> string" where
  "sheetPlaceholder token note =
     [NL, NL] @ ''> **'' @ [CHR 0xF0, CHR 0x9F, CHR 0x93, CHR 0x8A] @ '' '' @ [CHR 0xE5, CHR 0xB5, CHR 0x8C, CHR 0xE5, CHR 0x85, CHR 0xA5, CHR 0xE7, CHR 0x9A, CHR 0x84, CHR 0xE7, CHR 0x94, CHR 0xB5, CHR 0xE5, CHR 0xAD, CHR 0x90, CHR 0xE8, CHR 0xA1, CHR 0xA8, CHR 0xE6, CHR 0xA0, CHR 0xBC] @ ''**'' @ [CHR 0x0A] @ ''>'' @ [CHR 0x0A]
     @ (if token \<noteq> [] then ''> Token: '' @ [CHR 0x60] @ token @ [CHR 0x60, CHR 0x0A] else [])
     @ ''>'' @ [CHR 0x0A] @ note @ [NL, NL]"

definition ParseDocxBlockSheet :: "Parser \<Rightarrow> DocxBlockSheet option \<Rightarrow> string result" where
  "ParseDocxBlockSheet p sh =
     (case sh of
        None \<Rightarrow> Inl NilDereference
      | Some s \<Rightarrow>
          (case (if SheetToken s = [] then None else client p) of
             None \<Rightarrow>
               Inr (sheetPlaceholder (SheetToken s)
                      ''> *'' @ [CHR 0xE6, CHR 0xB3, CHR 0xA8, CHR 0xEF, CHR 0xBC, CHR 0x9A, CHR 0xE6, CHR 0x97, CHR 0xA0, CHR 0xE6, CHR 0xB3, CHR 0x95, CHR 0xE8, CHR 0x8E, CHR 0xB7, CHR 0xE5, CHR 0x8F, CHR 0x96, CHR 0xE7, CHR 0x94, CHR 0xB5, CHR 0xE5, CHR 0xAD, CHR 0x90, CHR 0xE8, CHR 0xA1, CHR 0xA8, CHR 0xE6, CHR 0xA0, CHR 0xBC, CHR 0xE5, CHR 0x86, CHR 0x85, CHR 0xE5, CHR 0xAE, CHR 0xB9, CHR 0xEF, CHR 0xBC, CHR 0x88, CHR 0xE7, CHR 0xBC, CHR 0xBA, CHR 0xE5, CHR 0xB0, CHR 0x91] @ '' client '' @ [CHR 0xE6, CHR 0x88, CHR 0x96] @ '' token'' @ [CHR 0xEF, CHR 0xBC, CHR 0x89] @ ''*'' @ [CHR 0x0A])
           | Some c \<Rightarrow>
               (case GetSheetContent c (SheetToken s) of
                  Inl err \<Rightarrow>
                    Inr (sheetPlaceholder (SheetToken s)
                      (if Contains err ''invalid spreadsheet token format'' then
                         ''> *'' @ [CHR 0xE6, CHR 0xB3, CHR 0xA8, CHR 0xEF, CHR 0xBC, CHR 0x9A, CHR 0xE6, CHR 0xAD, CHR 0xA4, CHR 0xE7, CHR 0x94, CHR 0xB5, CHR 0xE5, CHR 0xAD, CHR 0x90, CHR 0xE8, CHR 0xA1, CHR 0xA8, CHR 0xE6, CHR 0xA0, CHR 0xBC, CHR 0xE4, CHR 0xBD, CHR 0xBF, CHR 0xE7, CHR 0x94, CHR 0xA8, CHR 0xE4, CHR 0xBA, CHR 0x86, CHR 0xE4, CHR 0xB8, CHR 0x8D, CHR 0xE6, CHR 0x94, CHR 0xAF, CHR 0xE6, CHR 0x8C, CHR 0x81, CHR 0xE7, CHR 0x9A, CHR 0x84, CHR 0xE5, CHR 0xB5, CHR 0x8C, CHR 0xE5, CHR 0x85, CHR 0xA5, CHR 0xE6, CHR 0x96, CHR 0xB9, CHR 0xE5, CHR 0xBC, CHR 0x8F, CHR 0xEF, CHR 0xBC, CHR 0x8C, CHR 0xE6, CHR 0x97, CHR 0xA0, CHR 0xE6, CHR 0xB3, CHR 0x95, CHR 0xE8, CHR 0x8E, CHR 0xB7, CHR 0xE5, CHR 0x8F, CHR 0x96, CHR 0xE5, CHR 0x86, CHR 0x85, CHR 0xE5, CHR 0xAE, CHR 0xB9] @ ''*'' @ [CHR 0x0A]
                       else if Contains err ''91402'' \<or> Contains err ''NOTEXIST'' then
                         ''> *'' @ [CHR 0xE6, CHR 0xB3, CHR 0xA8, CHR 0xEF, CHR 0xBC, CHR 0x9A, CHR 0xE6, CHR 0x97, CHR 0xA0, CHR 0xE6, CHR 0xB3, CHR 0x95, CHR 0xE8, CHR 0xAE, CHR 0xBF, CHR 0xE9, CHR 0x97, CHR 0xAE, CHR 0xE7, CHR 0x94, CHR 0xB5, CHR 0xE5, CHR 0xAD, CHR 0x90, CHR 0xE8, CHR 0xA1, CHR 0xA8, CHR 0xE6, CHR 0xA0, CHR 0xBC, CHR 0xEF, CHR 0xBC, CHR 0x88, CHR 0xE5, CHR 0x8F, CHR 0xAF, CHR 0xE8, CHR 0x83, CHR 0xBD, CHR 0xE6, CHR 0xB2, CHR 0xA1, CHR 0xE6, CHR 0x9C, CHR 0x89, CHR 0xE6, CHR 0x9D, CHR 0x83, CHR 0xE9, CHR 0x99, CHR 0x90, CHR 0xE6, CHR 0x88, CHR 0x96, CHR 0xE7, CHR 0x94, CHR 0xB5, CHR 0xE5, CHR 0xAD, CHR 0x90, CHR 0xE8, CHR 0xA1, CHR 0xA8, CHR 0xE6, CHR 0xA0, CHR 0xBC, CHR 0xE4, CHR 0xB8, CHR 0x8D, CHR 0xE5, CHR 0xAD, CHR 0x98, CHR 0xE5, CHR 0x9C, CHR 0xA8, CHR 0xEF, CHR 0xBC, CHR 0x89] @ ''*'' @ [CHR 0x0A]
                       else ''> *'' @ [CHR 0xE8, CHR 0x8E, CHR 0xB7, CHR 0xE5, CHR 0x8F, CHR 0x96, CHR 0xE7, CHR 0x94, CHR 0xB5, CHR 0xE5, CHR 0xAD, CHR 0x90, CHR 0xE8, CHR 0xA1, CHR 0xA8, CHR 0xE6, CHR 0xA0, CHR 0xBC, CHR 0xE5, CHR 0x86, CHR 0x85, CHR 0xE5, CHR 0xAE, CHR 0xB9, CHR 0xE5, CHR 0xA4, CHR 0xB1, CHR 0xE8, CHR 0xB4, CHR 0xA5] @ '': '' @ err @ ''*'' @ [CHR 0x0A]))
                | Inr values \<Rightarrow>
                    if values = [] then
                      Inr (sheetPlaceholder (SheetToken s) ''> *'' @ [CHR 0xE7, CHR 0x94, CHR 0xB5, CHR 0xE5, CHR 0xAD, CHR 0x90, CHR 0xE8, CHR 0xA1, CHR 0xA8, CHR 0xE6, CHR 0xA0, CHR 0xBC, CHR 0xE4, CHR 0xB8, CHR 0xBA, CHR 0xE7, CHR 0xA9, CHR 0xBA] @ ''*'' @ [CHR 0x0A])
                    else Inr (markdownTable values))))"

definition bitablePlaceholder :: "string \<Rightarrow> string \<Rightarrow> string" where
  "bitablePlaceholder token note =
     [NL, NL] @ ''> **'' @ [CHR 0xF0, CHR 0x9F, CHR 0x93, CHR 0x8A] @ '' '' @ [CHR 0xE5, CHR 0xA4, CHR 0x9A, CHR 0xE7, CHR 0xBB, CHR 0xB4, CHR 0xE8, CHR 0xA1, CHR 0xA8, CHR 0xE6, CHR 0xA0, CHR 0xBC] @ ''**'' @ [CHR 0x0A] @ ''>'' @ [CHR 0x0A]
     @ (if token \<noteq> [] then ''> Token: '' @ [CHR 0x60] @ token @ [CHR 0x60, CHR 0x0A] else [])
     @ ''>'' @ [CHR 0x0A] @ note @ [NL, NL]"

definition ParseDocxBlockBitable :: "Parser \<Rightarrow> DocxBlockBitable option \<Rightarrow> string result" where
  "ParseDocxBlockBitable p bt =
     (case bt of
        None \<Rightarrow> Inl NilDereference
      | Some bitable \<Rightarrow>
          (case (if BitableToken bitable = [] then None else client p) of
             None \<Rightarrow>
               Inr (bitablePlaceholder (BitableToken bitable)
                      ''> *'' @ [CHR 0xE6, CHR 0xB3, CHR 0xA8, CHR 0xEF, CHR 0xBC, CHR 0x9A, CHR 0xE6, CHR 0x97, CHR 0xA0, CHR 0xE6, CHR 0xB3, CHR 0x95, CHR 0xE8, CHR 0x8E, CHR 0xB7, CHR 0xE5, CHR 0x8F, CHR 0x96, CHR 0xE5, CHR 0xA4, CHR 0x9A, CHR 0xE7, CHR 0xBB, CHR 0xB4, CHR 0xE8, CHR 0xA1, CHR 0xA8, CHR 0xE6, CHR 0xA0, CHR 0xBC, CHR 0xE5, CHR 0x86, CHR 0x85, CHR 0xE5, CHR 0xAE, CHR 0xB9, CHR 0xEF, CHR 0xBC, CHR 0x88, CHR 0xE7, CHR 0xBC, CHR 0xBA, CHR 0xE5, CHR 0xB0, CHR 0x91] @ '' client '' @ [CHR 0xE6, CHR 0x88, CHR 0x96] @ '' token'' @ [CHR 0xEF, CHR 0xBC, CHR 0x89] @ ''*'' @ [CHR 0x0A])
           | Some c \<Rightarrow>
               (case GetBitableContent c (BitableToken bitable) of
                  Inl err \<Rightarrow>
                    Inr (bitablePlaceholder (BitableToken bitable)
                           ''> *'' @ [CHR 0xE8, CHR 0x8E, CHR 0xB7, CHR 0xE5, CHR 0x8F, CHR 0x96, CHR 0xE5, CHR 0xA4, CHR 0x9A, CHR 0xE7, CHR 0xBB, CHR 0xB4, CHR 0xE8, CHR 0xA1, CHR 0xA8, CHR 0xE6, CHR 0xA0, CHR 0xBC, CHR 0xE5, CHR 0x86, CHR 0x85, CHR 0xE5, CHR 0xAE, CHR 0xB9, CHR 0xE5, CHR 0xA4, CHR 0xB1, CHR 0xE8, CHR 0xB4, CHR 0xA5] @ '': '' @ err @ ''*'' @ [CHR 0x0A])
                | Inr values \<Rightarrow>
                    if values = [] then
                      Inr (bitablePlaceholder (BitableToken bitable) ''> *'' @ [CHR 0xE5, CHR 0xA4, CHR 0x9A, CHR 0xE7, CHR 0xBB, CHR 0xB4, CHR 0xE8, CHR 0xA1, CHR 0xA8, CHR 0xE6, CHR 0xA0, CHR 0xBC, CHR 0xE4, CHR 0xB8, CHR 0xBA, CHR 0xE7, CHR 0xA9, CHR 0xBA] @ ''*'' @ [CHR 0x0A])
                    else Inr (markdownTable values))))"

definition ParseDocxBlockDiagram :: "DocxBlockDiagram option \<Rightarrow> string result" where
  "ParseDocxBlockDiagram d =
     (case d of
        None \<Rightarrow> Inl NilDereference
      | Some diagram \<Rightarrow>
          (let diagramType = (if DiagramType diagram = 2 then ''UML'' @ [CHR 0xE5, CHR 0x9B, CHR 0xBE] else [CHR 0xE6, CHR 0xB5, CHR 0x81, CHR 0xE7, CHR 0xA8, CHR 0x8B, CHR 0xE5, CHR 0x9B, CHR 0xBE])
           in Inr ([NL, NL] @ ''**'' @ [CHR 0xF0, CHR 0x9F, CHR 0x93, CHR 0x88] @ '' '' @ diagramType @ ''**'' @ [CHR 0x0A, CHR 0x0A]
                   @ ''> *'' @ [CHR 0xE6, CHR 0xB3, CHR 0xA8, CHR 0xEF, CHR 0xBC, CHR 0x9A, CHR 0xE6, CHR 0xB5, CHR 0x81, CHR 0xE7, CHR 0xA8, CHR 0x8B, CHR 0xE5, CHR 0x9B, CHR 0xBE] @ ''/UML'' @ [CHR 0xE5, CHR 0x9B, CHR 0xBE, CHR 0xE6, CHR 0x97, CHR 0xA0, CHR 0xE6, CHR 0xB3, CHR 0x95, CHR 0xE7, CHR 0x9B, CHR 0xB4, CHR 0xE6, CHR 0x8E, CHR 0xA5, CHR 0xE8, CHR 0xBD, CHR 0xAC, CHR 0xE6, CHR 0x8D, CHR 0xA2, CHR 0xE4, CHR 0xB8, CHR 0xBA] @ '' Markdown'' @ [CHR 0xEF, CHR 0xBC, CHR 0x8C, CHR 0xE5, CHR 0xBB, CHR 0xBA, CHR 0xE8, CHR 0xAE, CHR 0xAE, CHR 0xE5, CHR 0xAF, CHR 0xBC, CHR 0xE5, CHR 0x87, CHR 0xBA, CHR 0xE4, CHR 0xB8, CHR 0xBA, CHR 0xE5, CHR 0x9B, CHR 0xBE, CHR 0xE7, CHR 0x89, CHR 0x87, CHR 0xE6, CHR 0x88, CHR 0x96, CHR 0xE4, CHR 0xBD, CHR 0xBF, CHR 0xE7, CHR 0x94, CHR 0xA8] @ '' Mermaid '' @ [CHR 0xE8, CHR 0xAF, CHR 0xAD, CHR 0xE6, CHR 0xB3, CHR 0x95] @ ''*'' @ [CHR 0x0A]
                   @ [NL, NL])))"

definition typeNames :: "(int \<times> string) list" where
  "typeNames =
     [(1, [CHR 0xE5, CHR 0x93, CHR 0x94, CHR 0xE5, CHR 0x93, CHR 0xA9, CHR 0xE5, CHR 0x93, CHR 0x94, CHR 0xE5, CHR 0x93, CHR 0xA9]),
      (2, [CHR 0xE8, CHR 0xA5, CHR 0xBF, CHR 0xE7, CHR 0x93, CHR 0x9C, CHR 0xE8, CHR 0xA7, CHR 0x86, CHR 0xE9, CHR 0xA2, CHR 0x91]),
      (3, [CHR 0xE4, CHR 0xBC, CHR 0x98, CHR 0xE9, CHR 0x85, CHR 0xB7]),
      (4, ''Airtable''),
      (5, [CHR 0xE7, CHR 0x99, CHR 0xBE, CHR 0xE5, CHR 0xBA, CHR 0xA6, CHR 0xE5, CHR 0x9C, CHR 0xB0, CHR 0xE5, CHR 0x9B, CHR 0xBE]),
      (6, [CHR 0xE9, CHR 0xAB, CHR 0x98, CHR 0xE5, CHR 0xBE, CHR 0xB7, CHR 0xE5, CHR 0x9C, CHR 0xB0, CHR 0xE5, CHR 0x9B, CHR 0xBE]),
      (7, ''TikTok''),
      (8, ''Figma''),
      (9, [CHR 0xE5, CHR 0xA2, CHR 0xA8, CHR 0xE5, CHR 0x88, CHR 0x80]),
      (10, ''Canva''),
      (11, ''CodePen''),
      (12, [CHR 0xE9, CHR 0xA3, CHR 0x9E, CHR 0xE4, CHR 0xB9, CHR 0xA6, CHR 0xE9, CHR 0x97, CHR 0xAE, CHR 0xE5, CHR 0x8D, CHR 0xB7]),
      (13, [CHR 0xE9, CHR 0x87, CHR 0x91, CHR 0xE6, CHR 0x95, CHR 0xB0, CHR 0xE6, CHR 0x8D, CHR 0xAE]),
      (14, [CHR 0xE8, CHR 0xB0, CHR 0xB7, CHR 0xE6, CHR 0xAD, CHR 0x8C, CHR 0xE5, CHR 0x9C, CHR 0xB0, CHR 0xE5, CHR 0x9B, CHR 0xBE]),
      (15, ''YouTube''),
      (99, [CHR 0xE5, CHR 0x85, CHR 0xB6, CHR 0xE4, CHR 0xBB, CHR 0x96])]"

definition ParseDocxBlockIframe :: "DocxBlockIframe option \<Rightarrow> string result" where
  "ParseDocxBlockIframe fr =
     (case fr of
        None \<Rightarrow> Inl NilDereference
      | Some iframe \<Rightarrow>
          Inr ([NL, NL] @ ''**'' @ [CHR 0xF0, CHR 0x9F, CHR 0x94, CHR 0x97] @ '' '' @ [CHR 0xE5, CHR 0xB5, CHR 0x8C, CHR 0xE5, CHR 0x85, CHR 0xA5, CHR 0xE5, CHR 0x86, CHR 0x85, CHR 0xE5, CHR 0xAE, CHR 0xB9] @ ''**'' @ [CHR 0x0A, CHR 0x0A]
               @ (case Component iframe of
                    None \<Rightarrow> []
                  | Some cmp \<Rightarrow>
                      (let typeName =
                             (case map_of typeNames (IframeType cmp) of
                                Some name \<Rightarrow> name
                              | None \<Rightarrow> [CHR 0xE6, CHR 0x9C, CHR 0xAA, CHR 0xE7, CHR 0x9F, CHR 0xA5, CHR 0xE7, CHR 0xB1, CHR 0xBB, CHR 0xE5, CHR 0x9E, CHR 0x8B])
                       in ''> '' @ [CHR 0xE7, CHR 0xB1, CHR 0xBB, CHR 0xE5, CHR 0x9E, CHR 0x8B] @ '': '' @ typeName @ [CHR 0x0A]
                          @ (if ComponentURL cmp \<noteq> [] then
                               ''>'' @ [CHR 0x0A] @ ''> '' @ [CHR 0xE9, CHR 0x93, CHR 0xBE, CHR 0xE6, CHR 0x8E, CHR 0xA5] @ '': '' @ ComponentURL cmp @ [CHR 0x0A]
                             else [])))
               @ ''>'' @ [CHR 0x0A]
               @ ''> *'' @ [CHR 0xE6, CHR 0xB3, CHR 0xA8, CHR 0xEF, CHR 0xBC, CHR 0x9A, CHR 0xE5, CHR 0xB5, CHR 0x8C, CHR 0xE5, CHR 0x85, CHR 0xA5, CHR 0xE5, CHR 0x86, CHR 0x85, CHR 0xE5, CHR 0xAE, CHR 0xB9, CHR 0xE6, CHR 0x97, CHR 0xA0, CHR 0xE6, CHR 0xB3, CHR 0x95, CHR 0xE7, CHR 0x9B, CHR 0xB4, CHR 0xE6, CHR 0x8E, CHR 0xA5, CHR 0xE5, CHR 0x9C, CHR 0xA8] @ '' Markdown '' @ [CHR 0xE4, CHR 0xB8, CHR 0xAD, CHR 0xE6, CHR 0x98, CHR 0xBE, CHR 0xE7, CHR 0xA4, CHR 0xBA, CHR 0xEF, CHR 0xBC, CHR 0x8C, CHR 0xE8, CHR 0xAF, CHR 0xB7, CHR 0xE8, CHR 0xAE, CHR 0xBF, CHR 0xE9, CHR 0x97, CHR 0xAE, CHR 0xE9, CHR 0xA3, CHR 0x9E, CHR 0xE4, CHR 0xB9, CHR 0xA6, CHR 0xE6, CHR 0x9F, CHR 0xA5, CHR 0xE7, CHR 0x9C, CHR 0x8B, CHR 0xE5, CHR 0x8E, CHR 0x9F, CHR 0xE5, CHR 0xA7, CHR 0x8B, CHR 0xE5, CHR 0x86, CHR 0x85, CHR 0xE5, CHR 0xAE, CHR 0xB9] @ ''*'' @ [CHR 0x0A]
               @ [NL, NL]))"


subsection \<open>Blocks with children\<close>

text \<open>
  \<open>ParseDocxBlock\<close> and the renderers of the container blocks call each other. Each
  container renderer takes the dispatcher as its argument \<open>rec\<close>; \<open>ParseDocxBlock\<close>
  ties the knot by recursion on the fuel. The parser is passed through every call,
  because an image block appends to \<open>ImgTokens\<close>.
\<close>

type_synonym render = "Parser \<Rightarrow> DocxBlock option \<Rightarrow> int \<Rightarrow> (string \<times> Parser) result"

text \<open>
  The loop \<open>for _, childId := range b.Children\<close>: look the child up (a missing key of
  the Go map gives the nil pointer), render it, append the rendering and then \<open>post\<close>.
\<close>

fun render_children ::
  "render \<Rightarrow> Parser \<Rightarrow> string list \<Rightarrow> int \<Rightarrow> string \<Rightarrow> string \<Rightarrow> (string \<times> Parser) result" where
  "render_children rec p [] lvl post buf = Inr (buf, p)"
| "render_children rec p (childId # rest) lvl post buf =
     rbind (rec p (blockMap p childId) lvl)
       (\<lambda>(s, p'). render_children rec p' rest lvl post (buf @ s @ post))"

definition ParseDocxBlockPage :: "env \<Rightarrow> render \<Rightarrow> Parser \<Rightarrow> DocxBlock \<Rightarrow> (string \<times> Parser) result" where
  "ParseDocxBlockPage E rec p b =
     rbind (ParseDocxBlockText E p (Page b))
       (\<lambda>t. render_children rec p (Children b) 0 [NL] (''# '' @ t @ [NL]))"

definition ParseDocxBlockCallout :: "render \<Rightarrow> Parser \<Rightarrow> DocxBlock \<Rightarrow> (string \<times> Parser) result" where
  "ParseDocxBlockCallout rec p b =
     render_children rec p (Children b) 0 [] (''>[!TIP] '' @ [NL])"

text \<open>The field \<open>Heading1\<close> ... \<open>Heading9\<close> that the reflection picks by the level.\<close>

definition HeadingField :: "nat \<Rightarrow> DocxBlock \<Rightarrow> DocxBlockText option" where
  "HeadingField headingLevel b =
     (if headingLevel = 1 then Heading1 b else if headingLevel = 2 then Heading2 b
      else if headingLevel = 3 then Heading3 b else if headingLevel = 4 then Heading4 b
      else if headingLevel = 5 then Heading5 b else if headingLevel = 6 then Heading6 b
      else if headingLevel = 7 then Heading7 b else if headingLevel = 8 then Heading8 b
      else Heading9 b)"

definition ParseDocxBlockHeading ::
  "env \<Rightarrow> render \<Rightarrow> Parser \<Rightarrow> DocxBlock \<Rightarrow> nat \<Rightarrow> (string \<times> Parser) result" where
  "ParseDocxBlockHeading E rec p b headingLevel =
     rbind (ParseDocxBlockText E p (HeadingField headingLevel b))
       (\<lambda>t. render_children rec p (Children b) 0 []
               (replicate headingLevel (CHR ''#'') @ '' '' @ t))"

definition ParseDocxBlockBullet ::
  "env \<Rightarrow> render \<Rightarrow> Parser \<Rightarrow> DocxBlock \<Rightarrow> int \<Rightarrow> (string \<times> Parser) result" where
  "ParseDocxBlockBullet E rec p b indentLevel =
     rbind (ParseDocxBlockText E p (Bullet b))
       (\<lambda>t. render_children rec p (Children b) (indentLevel + 1) [] (''- '' @ t))"

text \<open>
  The number of an ordered item. The inner loop walks back from the position before the
  block and counts while the sibling is ordered; reading the type of a sibling that is
  not in the index is a nil dereference. \<open>countBack p cs k order\<close> is the inner loop with
  \<open>i = k - 1\<close>.
\<close>

fun countBack :: "Parser \<Rightarrow> string list \<Rightarrow> nat \<Rightarrow> nat \<Rightarrow> nat result" where
  "countBack p cs 0 order = Inr order"
| "countBack p cs (Suc i) order =
     (case blockMap p (cs ! i) of
        None \<Rightarrow> Inl NilDereference
      | Some sibling \<Rightarrow>
          if BlockType sibling = DocxBlockTypeOrdered then countBack p cs i (order + 1)
          else Inr order)"

text \<open>The outer loop: the first position of the block among the children of its parent.\<close>

function findOrder :: "Parser \<Rightarrow> string list \<Rightarrow> string \<Rightarrow> nat \<Rightarrow> nat result" where
  "findOrder p cs blockId idx =
     (if idx < length cs then
        (if cs ! idx = blockId then countBack p cs idx 1
         else findOrder p cs blockId (idx + 1))
      else Inr 1)"
  by pat_completeness auto
termination
  by (relation "measure (\<lambda>(p, cs, blockId, idx). length cs - idx)") auto

declare findOrder.simps [simp del]

definition orderOf :: "Parser \<Rightarrow> DocxBlock \<Rightarrow> nat result" where
  "orderOf p b =
     (case blockMap p (ParentID b) of
        None \<Rightarrow> Inl NilDereference
      | Some parent \<Rightarrow> findOrder p (Children parent) (BlockID b) 0)"

definition ParseDocxBlockOrdered ::
  "env \<Rightarrow> render \<Rightarrow> Parser \<Rightarrow> DocxBlock \<Rightarrow> int \<Rightarrow> (string \<times> Parser) result" where
  "ParseDocxBlockOrdered E rec p b indentLevel =
     rbind (orderOf p b)
       (\<lambda>order. rbind (ParseDocxBlockText E p (Ordered b))
          (\<lambda>t. render_children rec p (Children b) (indentLevel + 1) []
                  (itoa order @ ''. '' @ t)))"

definition ParseDocxBlockTableCell :: "render \<Rightarrow> Parser \<Rightarrow> DocxBlock \<Rightarrow> (string \<times> Parser) result" where
  "ParseDocxBlockTableCell rec p b = render_children rec p (Children b) 0 ''<br/>'' []"

text \<open>
  The quote container: \<open>i < len(b.Children)-1\<close> holds exactly when children remain
  after the current one.
\<close>

fun quote_loop :: "render \<Rightarrow> Parser \<Rightarrow> string list \<Rightarrow> string \<Rightarrow> (string \<times> Parser) result" where
  "quote_loop rec p [] buf = Inr (buf, p)"
| "quote_loop rec p (child # rest) buf =
     rbind (rec p (blockMap p child) 0)
       (\<lambda>(content, p').
          quote_loop rec p' rest
            (buf @ ''> '' @ TrimRightNL content @ ''  '' @ (if rest \<noteq> [] then [NL] else [])))"

definition ParseDocxBlockQuoteContainer ::
  "render \<Rightarrow> Parser \<Rightarrow> DocxBlock \<Rightarrow> (string \<times> Parser) result" where
  "ParseDocxBlockQuoteContainer rec p b = quote_loop rec p (Children b) []"

text \<open>The grid reads the children of each of its columns; a column that is not in the
  index is a nil dereference.\<close>

fun grid_loop ::
  "render \<Rightarrow> Parser \<Rightarrow> string list \<Rightarrow> int \<Rightarrow> string \<Rightarrow> (string \<times> Parser) result" where
  "grid_loop rec p [] lvl buf = Inr (buf, p)"
| "grid_loop rec p (child # rest) lvl buf =
     (case blockMap p child of
        None \<Rightarrow> Inl NilDereference
      | Some columnBlock \<Rightarrow>
          rbind (render_children rec p (Children columnBlock) lvl [] buf)
            (\<lambda>(buf', p'). grid_loop rec p' rest lvl buf'))"

definition ParseDocxBlockGrid ::
  "render \<Rightarrow> Parser \<Rightarrow> DocxBlock \<Rightarrow> int \<Rightarrow> (string \<times> Parser) result" where
  "ParseDocxBlockGrid rec p b indentLevel = grid_loop rec p (Children b) indentLevel []"

subsection \<open>Tables\<close>

text \<open>
  The merge table. Go's nested map reads as nil where the row or the column is missing,
  and the stored pointer may itself be nil: both are \<open>None\<close>. The division is Go's,
  truncating towards zero, and panics on a column count of zero.
\<close>

type_synonym mergeInfoMap = "int \<times> int \<Rightarrow> DocxBlockTablePropertyMergeInfo option"

fun mergeInfo_loop ::
  "int \<Rightarrow> nat \<Rightarrow> DocxBlockTablePropertyMergeInfo option list \<Rightarrow> mergeInfoMap \<Rightarrow> mergeInfoMap result" where
  "mergeInfo_loop columnSize i [] m = Inr m"
| "mergeInfo_loop columnSize i (merge # rest) m =
     (if columnSize = 0 then Inl DivideByZero
      else mergeInfo_loop columnSize (i + 1) rest
             (m((int i sdiv columnSize, int i smod columnSize) := merge)))"

text \<open>
  Placing one cell: the rows grow while \<open>len(rows) <= rowIndex\<close>, the row grows while
  \<open>len(rows[rowIndex]) <= colIndex\<close>, then the cell is written. A negative row index
  (a negative column count) skips the first loop and panics at \<open>rows[rowIndex]\<close>.
\<close>

definition placeCell :: "string list list \<Rightarrow> int \<Rightarrow> int \<Rightarrow> string \<Rightarrow> string list list result" where
  "placeCell rows rowIndex colIndex cellContent =
     (if rowIndex < 0 \<or> colIndex < 0 then Inl IndexOutOfRange
      else
        (let r = nat rowIndex; c = nat colIndex;
             rows1 = rows @ replicate (Suc r - length rows) [];
             row1 = (rows1 ! r) @ replicate (Suc c - length (rows1 ! r)) []
         in Inr (rows1[r := row1[c := cellContent]])))"

fun cells_loop ::
  "render \<Rightarrow> Parser \<Rightarrow> int \<Rightarrow> nat \<Rightarrow> string list \<Rightarrow> string list list
     \<Rightarrow> (string list list \<times> Parser) result" where
  "cells_loop rec p columnSize i [] rows = Inr (rows, p)"
| "cells_loop rec p columnSize i (blockId # rest) rows =
     rbind (rec p (blockMap p blockId) 0)
       (\<lambda>(content, p').
          if columnSize = 0 then Inl DivideByZero
          else rbind (placeCell rows (int i sdiv columnSize) (int i smod columnSize)
                        (RemoveNL content))
                 (\<lambda>rows'. cells_loop rec p' columnSize (i + 1) rest rows'))"

text \<open>
  The keys of \<open>processedCells\<close> are the strings \<open>"r-c"\<close>. The bound of each marking
  loop is a sum of machine integers, so it wraps at 64 bits.
\<close>

definition cellKey :: "nat \<Rightarrow> nat \<Rightarrow> string" where
  "cellKey r c = itoa r @ ''-'' @ itoa c"

definition wrap64 :: "int \<Rightarrow> int" where
  "wrap64 x = (x + 2 ^ 63) mod 2 ^ 64 - 2 ^ 63"

definition markCells ::
  "nat \<Rightarrow> nat \<Rightarrow> DocxBlockTablePropertyMergeInfo \<Rightarrow> string set \<Rightarrow> string set" where
  "markCells rowIndex colIndex mergeInfo processedCells =
     fold (\<lambda>r P. fold (\<lambda>c P'. insert (cellKey r c) P')
                       [colIndex ..< nat (wrap64 (int colIndex + ColSpan mergeInfo))] P)
          [rowIndex ..< nat (wrap64 (int rowIndex + RowSpan mergeInfo))] processedCells"

definition attributesOf :: "DocxBlockTablePropertyMergeInfo \<Rightarrow> string" where
  "attributesOf mergeInfo =
     (if RowSpan mergeInfo > 1 then '' rowspan='' @ [DQ] @ itoa (nat (RowSpan mergeInfo)) @ [DQ]
      else [])
     @ (if ColSpan mergeInfo > 1 then '' colspan='' @ [DQ] @ itoa (nat (ColSpan mergeInfo)) @ [DQ]
        else [])"

text \<open>One step of the inner loop: the text it appends and the cells it marks.\<close>

definition renderCell ::
  "mergeInfoMap \<Rightarrow> nat \<Rightarrow> nat \<Rightarrow> string \<Rightarrow> string set \<Rightarrow> string \<times> string set" where
  "renderCell M rowIndex colIndex cellContent processedCells =
     (if cellKey rowIndex colIndex \<in> processedCells then ([], processedCells)
      else
        (case M (int rowIndex, int colIndex) of
           Some mergeInfo \<Rightarrow>
             (''<td'' @ attributesOf mergeInfo @ ''>'' @ cellContent @ ''</td>'',
              markCells rowIndex colIndex mergeInfo processedCells)
         | None \<Rightarrow> (''<td>'' @ cellContent @ ''</td>'', processedCells)))"

fun row_loop ::
  "mergeInfoMap \<Rightarrow> nat \<Rightarrow> nat \<Rightarrow> string list \<Rightarrow> string set \<Rightarrow> string \<Rightarrow> string \<times> string set" where
  "row_loop M rowIndex colIndex [] processedCells buf = (buf, processedCells)"
| "row_loop M rowIndex colIndex (cellContent # rest) processedCells buf =
     (let (s, processedCells') = renderCell M rowIndex colIndex cellContent processedCells
      in row_loop M rowIndex (colIndex + 1) rest processedCells' (buf @ s))"

fun rows_loop ::
  "mergeInfoMap \<Rightarrow> nat \<Rightarrow> string list list \<Rightarrow> string set \<Rightarrow> string \<Rightarrow> string" where
  "rows_loop M rowIndex [] processedCells buf = buf"
| "rows_loop M rowIndex (row # rest) processedCells buf =
     (let (buf', processedCells') = row_loop M rowIndex 0 row processedCells (buf @ ''<tr>'' @ [NL])
      in rows_loop M (rowIndex + 1) rest processedCells' (buf' @ ''</tr>'' @ [NL]))"

definition ParseDocxBlockTable ::
  "render \<Rightarrow> Parser \<Rightarrow> DocxBlockTable option \<Rightarrow> (string \<times> Parser) result" where
  "ParseDocxBlockTable rec p tb =
     (case tb of
        None \<Rightarrow> Inl NilDereference
      | Some t \<Rightarrow>
          (case Property t of
             None \<Rightarrow> Inl NilDereference
           | Some property \<Rightarrow>
               rbind (mergeInfo_loop (ColumnSize property) 0 (MergeInfo property) (\<lambda>_. None))
                 (\<lambda>M. rbind (cells_loop rec p (ColumnSize property) 0 (Cells t) [])
                    (\<lambda>(rows, p').
                       Inr (''<table>'' @ [NL] @ rows_loop M 0 rows {} [] @ ''</table>'' @ [NL],
                            p')))))"

subsection \<open>The dispatcher\<close>

definition withText :: "string \<Rightarrow> Parser \<Rightarrow> string result \<Rightarrow> (string \<times> Parser) result" where
  "withText pre p r = rbind r (\<lambda>s. Inr (pre @ s, p))"

definition withPrefix :: "string \<Rightarrow> (string \<times> Parser) result \<Rightarrow> (string \<times> Parser) result" where
  "withPrefix pre r = rbind r (\<lambda>(s, p'). Inr (pre @ s, p'))"

definition ParseDocxBlockCode :: "env \<Rightarrow> Parser \<Rightarrow> DocxBlock \<Rightarrow> string result" where
  "ParseDocxBlockCode E p b =
     (case Code b of
        None \<Rightarrow> Inl NilDereference
      | Some code \<Rightarrow>
          (case Style code of
             None \<Rightarrow> Inl NilDereference
           | Some style \<Rightarrow>
               rbind (ParseDocxBlockText E p (Code b))
                 (\<lambda>t. Inr ([BQ, BQ, BQ] @ codeLang (Language style) @ [NL]
                           @ TrimSpace t @ [NL, BQ, BQ, BQ, NL]))))"

definition ParseDocxBlockTodo :: "env \<Rightarrow> Parser \<Rightarrow> DocxBlock \<Rightarrow> string result" where
  "ParseDocxBlockTodo E p b =
     (case Todo b of
        None \<Rightarrow> Inl NilDereference
      | Some todo \<Rightarrow>
          (case Style todo of
             None \<Rightarrow> Inl NilDereference
           | Some style \<Rightarrow>
               rbind (ParseDocxBlockText E p (Todo b))
                 (\<lambda>t. Inr ((if Done style then ''- [x] '' else ''- [ ] '') @ t))))"

text \<open>
  The body of \<open>ParseDocxBlock\<close>: the indentation is written first (and panics on a
  negative level), then the type of the block is read (and panics on the nil block),
  then the branch of the switch is appended.
\<close>

definition ParseDocxBlock_body ::
  "env \<Rightarrow> render \<Rightarrow> Parser \<Rightarrow> DocxBlock option \<Rightarrow> int \<Rightarrow> (string \<times> Parser) result" where
  "ParseDocxBlock_body E rec p blk indentLevel =
     rbind (Repeat [TAB] indentLevel)
       (\<lambda>tabs.
          case blk of
            None \<Rightarrow> Inl NilDereference
          | Some b \<Rightarrow>
              (case BlockType b of
                 DocxBlockTypePage \<Rightarrow> withPrefix tabs (ParseDocxBlockPage E rec p b)
               | DocxBlockTypeText \<Rightarrow> withText tabs p (ParseDocxBlockText E p (Text b))
               | DocxBlockTypeCallout \<Rightarrow> withPrefix tabs (ParseDocxBlockCallout rec p b)
               | DocxBlockTypeHeading1 \<Rightarrow> withPrefix tabs (ParseDocxBlockHeading E rec p b 1)
               | DocxBlockTypeHeading2 \<Rightarrow> withPrefix tabs (ParseDocxBlockHeading E rec p b 2)
               | DocxBlockTypeHeading3 \<Rightarrow> withPrefix tabs (ParseDocxBlockHeading E rec p b 3)
               | DocxBlockTypeHeading4 \<Rightarrow> withPrefix tabs (ParseDocxBlockHeading E rec p b 4)
               | DocxBlockTypeHeading5 \<Rightarrow> withPrefix tabs (ParseDocxBlockHeading E rec p b 5)
               | DocxBlockTypeHeading6 \<Rightarrow> withPrefix tabs (ParseDocxBlockHeading E rec p b 6)
               | DocxBlockTypeHeading7 \<Rightarrow> withPrefix tabs (ParseDocxBlockHeading E rec p b 7)
               | DocxBlockTypeHeading8 \<Rightarrow> withPrefix tabs (ParseDocxBlockHeading E rec p b 8)
               | DocxBlockTypeHeading9 \<Rightarrow> withPrefix tabs (ParseDocxBlockHeading E rec p b 9)
               | DocxBlockTypeBullet \<Rightarrow>
                   withPrefix tabs (ParseDocxBlockBullet E rec p b indentLevel)
               | DocxBlockTypeOrdered \<Rightarrow>
                   withPrefix tabs (ParseDocxBlockOrdered E rec p b indentLevel)
               | DocxBlockTypeCode \<Rightarrow> withText tabs p (ParseDocxBlockCode E p b)
               | DocxBlockTypeQuote \<Rightarrow>
                   withText (tabs @ ''> '') p (ParseDocxBlockText E p (Quote b))
               | DocxBlockTypeEquation \<Rightarrow>
                   withText (tabs @ ''$$'' @ [NL]) p
                     (rbind (ParseDocxBlockText E p (Equation b))
                        (\<lambda>t. Inr (t @ [NL] @ ''$$'' @ [NL])))
               | DocxBlockTypeTodo \<Rightarrow> withText tabs p (ParseDocxBlockTodo E p b)
               | DocxBlockTypeDivider \<Rightarrow> Inr (tabs @ ''---'' @ [NL], p)
               | DocxBlockTypeImage \<Rightarrow> withPrefix tabs (ParseDocxBlockImage p (Image b))
               | DocxBlockTypeFile \<Rightarrow> withText tabs p (ParseDocxBlockFile E p (File b))
               | DocxBlockTypeBitable \<Rightarrow> withText tabs p (ParseDocxBlockBitable p (Bitable b))
               | DocxBlockTypeDiagram \<Rightarrow> withText tabs p (ParseDocxBlockDiagram (Diagram b))
               | DocxBlockTypeIframe \<Rightarrow> withText tabs p (ParseDocxBlockIframe (Iframe b))
               | DocxBlockTypeTableCell \<Rightarrow> withPrefix tabs (ParseDocxBlockTableCell rec p b)
               | DocxBlockTypeTable \<Rightarrow> withPrefix tabs (ParseDocxBlockTable rec p (Table b))
               | DocxBlockTypeSheet \<Rightarrow> withText tabs p (ParseDocxBlockSheet p (Sheet b))
               | DocxBlockTypeQuoteContainer \<Rightarrow>
                   withPrefix tabs (ParseDocxBlockQuoteContainer rec p b)
               | DocxBlockTypeGrid \<Rightarrow> withPrefix tabs (ParseDocxBlockGrid rec p b indentLevel)
               | _ \<Rightarrow> render_children rec p (Children b) indentLevel [] tabs))"

primrec ParseDocxBlock :: "env \<Rightarrow> nat \<Rightarrow> render" where
  "ParseDocxBlock E 0 = (\<lambda>p blk indentLevel. Inl OutOfFuel)"
| "ParseDocxBlock E (Suc fuel) = ParseDocxBlock_body E (ParseDocxBlock E fuel)"

text \<open>
  \<open>ParseDocxContent\<close> fills the index in one pass, a later block with the same
  identifier overwriting an earlier one, and renders the block of the document.
\<close>

definition ParseDocxContent ::
  "env \<Rightarrow> nat \<Rightarrow> Parser \<Rightarrow> DocxDocument \<Rightarrow> DocxBlock list \<Rightarrow> (string \<times> Parser) result" where
  "ParseDocxContent E fuel p doc blocks =
     (let p1 = p\<lparr>blockMap := fold (\<lambda>block m. m(BlockID block \<mapsto> block)) blocks (blockMap p)\<rparr>
      in ParseDocxBlock E fuel p1 (blockMap p1 (DocumentID doc)) 0)"


section \<open>Notions used to state the properties of the renderer\<close>

text \<open>
  The renderings of a list of children, in order, with the parser passed from one to
  the next: what the loops over \<open>b.Children\<close> append, before any separator.
\<close>

fun renderings ::
  "render \<Rightarrow> Parser \<Rightarrow> string list \<Rightarrow> int \<Rightarrow> (string list \<times> Parser) result" where
  "renderings rec p [] lvl = Inr ([], p)"
| "renderings rec p (childId # rest) lvl =
     rbind (rec p (blockMap p childId) lvl)
       (\<lambda>(s, p'). rbind (renderings rec p' rest lvl) (\<lambda>(ss, p''). Inr (s # ss, p'')))"

text \<open>Joining pieces with a separator between them and none after the last.\<close>

fun joinWith :: "string \<Rightarrow> string list \<Rightarrow> string" where
  "joinWith sep [] = []"
| "joinWith sep [x] = x"
| "joinWith sep (x # y # ys) = x @ sep @ joinWith sep (y # ys)"

text \<open>
  The quote container as the specification words it: every child's rendering with its
  trailing newlines trimmed and two spaces appended, joined by newlines.
\<close>

definition quoteContainerSpec :: "string list \<Rightarrow> string" where
  "quoteContainerSpec outs = joinWith [NL] (map (\<lambda>s. TrimRightNL s @ ''  '') outs)"

text \<open>The same with the quote marker that the code writes before each child.\<close>

definition quoteContainerText :: "string list \<Rightarrow> string" where
  "quoteContainerText outs = joinWith [NL] (map (\<lambda>s. ''> '' @ TrimRightNL s @ ''  '') outs)"

text \<open>
  The style flags in their order of priority, the flags a style has, and the wrapper of
  each flag. Only bold, italic and strikethrough have a second form for the HTML mode.
\<close>

datatype styleFlag =
  FlagBold | FlagItalic | FlagStrikethrough | FlagUnderline | FlagInlineCode | FlagLink

definition flagPriority :: "styleFlag list" where
  "flagPriority =
     [FlagBold, FlagItalic, FlagStrikethrough, FlagUnderline, FlagInlineCode, FlagLink]"

fun hasFlag :: "DocxTextElementStyle \<Rightarrow> styleFlag \<Rightarrow> bool" where
  "hasFlag st FlagBold = Bold st"
| "hasFlag st FlagItalic = Italic st"
| "hasFlag st FlagStrikethrough = Strikethrough st"
| "hasFlag st FlagUnderline = Underline st"
| "hasFlag st FlagInlineCode = InlineCode st"
| "hasFlag st FlagLink = (Link st \<noteq> None)"

definition flagsOf :: "DocxTextElementStyle \<Rightarrow> styleFlag list" where
  "flagsOf st = filter (hasFlag st) flagPriority"

definition linkTarget :: "env \<Rightarrow> DocxTextElementStyle \<Rightarrow> string" where
  "linkTarget E st = (case Link st of None \<Rightarrow> [] | Some link \<Rightarrow> UnescapeURL E (LinkURL link))"

fun wrapper :: "bool \<Rightarrow> string \<Rightarrow> styleFlag \<Rightarrow> string \<times> string" where
  "wrapper html url FlagBold = (if html then (''<strong>'', ''</strong>'') else (''**'', ''**''))"
| "wrapper html url FlagItalic = (if html then (''<em>'', ''</em>'') else (''_'', ''_''))"
| "wrapper html url FlagStrikethrough = (if html then (''<del>'', ''</del>'') else (''~~'', ''~~''))"
| "wrapper html url FlagUnderline = (''<u>'', ''</u>'')"
| "wrapper html url FlagInlineCode = ([BQ], [BQ])"
| "wrapper html url FlagLink = (''['', '']('' @ url @ '')'')"

definition wrapped :: "env \<Rightarrow> bool \<Rightarrow> DocxTextElementStyle \<Rightarrow> string \<Rightarrow> string" where
  "wrapped E html st content =
     (case flagsOf st of
        [] \<Rightarrow> content
      | f # _ \<Rightarrow> fst (wrapper html (linkTarget E st) f) @ content
                 @ snd (wrapper html (linkTarget E st) f))"

text \<open>
  The traversal of the renderer. \<open>descend m b\<close> lists the identifiers that rendering
  \<open>b\<close> hands to \<open>ParseDocxBlock\<close>, in order: the children for the containers and for
  an unsupported type, the cells for a table, the children of the columns for a grid,
  nothing for the other types.
\<close>

definition descend :: "(string \<rightharpoonup> DocxBlock) \<Rightarrow> DocxBlock \<Rightarrow> string list" where
  "descend m b =
     (case BlockType b of
        DocxBlockTypeText \<Rightarrow> [] | DocxBlockTypeCode \<Rightarrow> [] | DocxBlockTypeQuote \<Rightarrow> []
      | DocxBlockTypeEquation \<Rightarrow> [] | DocxBlockTypeTodo \<Rightarrow> [] | DocxBlockTypeDivider \<Rightarrow> []
      | DocxBlockTypeImage \<Rightarrow> [] | DocxBlockTypeFile \<Rightarrow> [] | DocxBlockTypeBitable \<Rightarrow> []
      | DocxBlockTypeDiagram \<Rightarrow> [] | DocxBlockTypeIframe \<Rightarrow> [] | DocxBlockTypeSheet \<Rightarrow> []
      | DocxBlockTypeTable \<Rightarrow> (case Table b of None \<Rightarrow> [] | Some t \<Rightarrow> Cells t)
      | DocxBlockTypeGrid \<Rightarrow>
          concat (map (\<lambda>c. case m c of None \<Rightarrow> [] | Some columnBlock \<Rightarrow> Children columnBlock)
                      (Children b))
      | _ \<Rightarrow> Children b)"

definition ownImgTokens :: "DocxBlock \<Rightarrow> string list" where
  "ownImgTokens b =
     (if BlockType b = DocxBlockTypeImage
      then (case Image b of None \<Rightarrow> [] | Some img \<Rightarrow> [ImageToken img]) else [])"

text \<open>
  The tokens of the image blocks in the order of the traversal, one for each visit of an
  image block, to the depth given by the fuel.
\<close>

primrec imgTraversal :: "nat \<Rightarrow> (string \<rightharpoonup> DocxBlock) \<Rightarrow> DocxBlock option \<Rightarrow> string list" where
  "imgTraversal 0 = (\<lambda>m blk. [])"
| "imgTraversal (Suc fuel) =
     (\<lambda>m blk. case blk of
                 None \<Rightarrow> []
               | Some b \<Rightarrow> ownImgTokens b
                           @ concat (map (\<lambda>c. imgTraversal fuel m (m c)) (descend m b)))"




definition indentedBy :: "int \<Rightarrow> string \<Rightarrow> bool" where
  "indentedBy lvl s = (0 \<le> lvl \<and> take (nat lvl) s = replicate (nat lvl) TAB)"

text \<open>
  The grid of a table as the specification words it: the \<open>i\<close>-th cell at row
  \<open>i div columnCount\<close> and column \<open>i mod columnCount\<close>.
\<close>

definition cellAt :: "string list list \<Rightarrow> nat \<Rightarrow> nat \<Rightarrow> string option" where
  "cellAt rows r c =
     (if r < length rows \<and> c < length (rows ! r) then Some (rows ! r ! c) else None)"

section \<open>Downloading a standalone file\<close>

text \<open>
  The disk is a map from paths to contents. Whether an operation of the file system
  fails is read from the environment. Directories are not kept in the model, nor the
  bytes that a failing write leaves behind.
\<close>

type_synonym disk = "string \<rightharpoonup> string"

definition fileTypeName :: "string \<Rightarrow> string" where
  "fileTypeName objType =
     (if objType = ''mindnote'' then [CHR 0xE6, CHR 0x80, CHR 0x9D, CHR 0xE7, CHR 0xBB, CHR 0xB4, CHR 0xE5, CHR 0xAF, CHR 0xBC, CHR 0xE5, CHR 0x9B, CHR 0xBE]
      else if objType = ''file'' then [CHR 0xE6, CHR 0x96, CHR 0x87, CHR 0xE4, CHR 0xBB, CHR 0xB6]
      else if objType = ''sheet'' then [CHR 0xE8, CHR 0xA1, CHR 0xA8, CHR 0xE6, CHR 0xA0, CHR 0xBC]
      else if objType = ''bitable'' then [CHR 0xE5, CHR 0xA4, CHR 0x9A, CHR 0xE7, CHR 0xBB, CHR 0xB4, CHR 0xE8, CHR 0xA1, CHR 0xA8, CHR 0xE6, CHR 0xA0, CHR 0xBC]
      else [CHR 0xE6, CHR 0x96, CHR 0x87, CHR 0xE4, CHR 0xBB, CHR 0xB6])"

definition placeholderLink :: "string \<Rightarrow> string \<Rightarrow> string" where
  "placeholderLink objType fileToken = ''https://jinniuai.feishu.cn/'' @ objType @ ''/'' @ fileToken"

definition placeholderContent :: "string \<Rightarrow> string \<Rightarrow> string \<Rightarrow> string" where
  "placeholderContent fileToken objType title =
     ''# '' @ title @ [CHR 0x0A, CHR 0x0A] @ ''**'' @ [CHR 0xE6, CHR 0x96, CHR 0x87, CHR 0xE4, CHR 0xBB, CHR 0xB6, CHR 0xE7, CHR 0xB1, CHR 0xBB, CHR 0xE5, CHR 0x9E, CHR 0x8B] @ ''**: '' @ fileTypeName objType @ [CHR 0x0A, CHR 0x0A]
     @ ''**'' @ [CHR 0xE6, CHR 0x96, CHR 0x87, CHR 0xE4, CHR 0xBB, CHR 0xB6] @ ''Token**: '' @ [CHR 0x60] @ fileToken @ [CHR 0x60, CHR 0x0A, CHR 0x0A]
     @ ''**'' @ [CHR 0xE6, CHR 0x8F, CHR 0x90, CHR 0xE7, CHR 0xA4, CHR 0xBA] @ ''**: '' @ [CHR 0xE8, CHR 0xBF, CHR 0x99, CHR 0xE6, CHR 0x98, CHR 0xAF, CHR 0xE4, CHR 0xB8, CHR 0x80, CHR 0xE4, CHR 0xB8, CHR 0xAA] @ fileTypeName objType @ [CHR 0xE6, CHR 0x96, CHR 0x87, CHR 0xE4, CHR 0xBB, CHR 0xB6, CHR 0xEF, CHR 0xBC, CHR 0x8C, CHR 0xE6, CHR 0x97, CHR 0xA0, CHR 0xE6, CHR 0xB3, CHR 0x95, CHR 0xE7, CHR 0x9B, CHR 0xB4, CHR 0xE6, CHR 0x8E, CHR 0xA5, CHR 0xE8, CHR 0xBD, CHR 0xAC, CHR 0xE6, CHR 0x8D, CHR 0xA2, CHR 0xE4, CHR 0xB8, CHR 0xBA] @ ''Markdown'' @ [CHR 0xE3, CHR 0x80, CHR 0x82, CHR 0x0A, CHR 0x0A]
     @ [CHR 0xE8, CHR 0xAF, CHR 0xB7, CHR 0xE8, CHR 0xAE, CHR 0xBF, CHR 0xE9, CHR 0x97, CHR 0xAE, CHR 0xE9, CHR 0xA3, CHR 0x9E, CHR 0xE4, CHR 0xB9, CHR 0xA6, CHR 0xE6, CHR 0x9F, CHR 0xA5, CHR 0xE7, CHR 0x9C, CHR 0x8B, CHR 0xE5, CHR 0x8E, CHR 0x9F, CHR 0xE5, CHR 0xA7, CHR 0x8B, CHR 0xE6, CHR 0x96, CHR 0x87, CHR 0xE4, CHR 0xBB, CHR 0xB6] @ '': ['' @ [CHR 0xE7, CHR 0x82, CHR 0xB9, CHR 0xE5, CHR 0x87, CHR 0xBB, CHR 0xE6, CHR 0x89, CHR 0x93, CHR 0xE5, CHR 0xBC, CHR 0x80] @ '']('' @ placeholderLink objType fileToken @ '')'' @ [CHR 0x0A]"

definition createFilePlaceholder ::
  "env \<Rightarrow> disk \<Rightarrow> string \<Rightarrow> string \<Rightarrow> string \<Rightarrow> string \<Rightarrow> (string \<times> go_error option) \<times> disk" where
  "createFilePlaceholder E fs fileToken outDir objType title =
     (let mdFilename = title @ ''.md'';
          mdPath = Join E outDir mdFilename
      in (case MkdirAllErr E outDir of
            Some err \<Rightarrow> (([], Some err), fs)
          | None \<Rightarrow>
              (let content = placeholderContent fileToken objType title
               in (case WriteFileErr E mdPath of
                     Some err \<Rightarrow> (([], Some err), fs)
                   | None \<Rightarrow> ((mdPath, None), fs(mdPath \<mapsto> content))))))"

text \<open>
  Writing the downloaded bytes: the file is opened with \<open>O_CREATE|O_WRONLY\<close> and
  not truncated, so the bytes of an older, longer file stay behind the copy.
\<close>

definition saveDownload ::
  "env \<Rightarrow> disk \<Rightarrow> string \<Rightarrow> string \<Rightarrow> DownloadResp \<Rightarrow> (string \<times> go_error option) \<times> disk" where
  "saveDownload E fs fileToken outDir resp =
     (let filename = (if Filename resp = [] then fileToken else Filename resp);
          filePath = Join E outDir filename
      in (case MkdirAllErr E (Dir E filePath) of
            Some err \<Rightarrow> (([], Some err), fs)
          | None \<Rightarrow>
              (case OpenFileErr E filePath of
                 Some err \<Rightarrow> (([], Some err), fs)
               | None \<Rightarrow>
                   (let old = (case fs filePath of None \<Rightarrow> [] | Some bytes \<Rightarrow> bytes)
                    in (case CopyErr E filePath of
                          Some err \<Rightarrow> (([], Some err), fs(filePath \<mapsto> old))
                        | None \<Rightarrow>
                            ((filePath, None),
                             fs(filePath \<mapsto> FileBytes resp @ drop (length (FileBytes resp)) old)))))))"

definition DownloadFile ::
  "env \<Rightarrow> Client \<Rightarrow> disk \<Rightarrow> string \<Rightarrow> string \<Rightarrow> string \<Rightarrow> string \<Rightarrow> (string \<times> go_error option) \<times> disk" where
  "DownloadFile E c fs fileToken outDir objType title =
     (case DownloadDriveFile c fileToken of
        Inl err \<Rightarrow>
          (case DownloadDriveMedia c fileToken of
             Inl mediaErr \<Rightarrow> createFilePlaceholder E fs fileToken outDir objType title
           | Inr None \<Rightarrow> createFilePlaceholder E fs fileToken outDir objType title
           | Inr (Some mediaResp) \<Rightarrow> saveDownload E fs fileToken outDir mediaResp)
      | Inr None \<Rightarrow> createFilePlaceholder E fs fileToken outDir objType title
      | Inr (Some resp) \<Rightarrow> saveDownload E fs fileToken outDir resp)"


section \<open>The crawl\<close>

text \<open>
  A leaf task is one call of \<open>downloadDocument\<close> or \<open>downloadFile\<close> in its own
  goroutine. The model keeps of it the file it writes when it succeeds and what it
  returns: \<open>None\<close> for nil, or the error.
\<close>

record Task =
  target :: string
  outcome :: "go_error option"

text \<open>
  The remote folder: the listing of a folder fails or gives its files in order; a file is
  a folder with its own listing, a document, or of a type the walk ignores.
\<close>

datatype DriveFile = FolderFile string DriveListing | DocxFile Task | OtherFile
  and DriveListing = ListingFailed go_error | Listed DriveFiles
  and DriveFiles = NoFiles | NextFile DriveFile DriveFiles

text \<open>
  What the recursive walk does in the main goroutine: the tasks it dispatches, in order,
  and the error it returns when a listing fails (it stops dispatching there).
\<close>

type_synonym walk = "Task list \<times> go_error option"

fun processFolder :: "DriveListing \<Rightarrow> walk"
  and processFiles :: "DriveFiles \<Rightarrow> walk" where
  "processFolder (ListingFailed err) = ([], Some err)"
| "processFolder (Listed files) = processFiles files"
| "processFiles NoFiles = ([], None)"
| "processFiles (NextFile (FolderFile name sub) rest) =
     (case processFolder sub of
        (ts, Some err) \<Rightarrow> (ts, Some err)
      | (ts, None) \<Rightarrow> (case processFiles rest of (ts', r) \<Rightarrow> (ts @ ts', r)))"
| "processFiles (NextFile (DocxFile t) rest) =
     (case processFiles rest of (ts', r) \<Rightarrow> (t # ts', r))"
| "processFiles (NextFile OtherFile rest) = processFiles rest"

text \<open>
  The wiki: a node carries a leaf task when its object type is one of \<open>docx\<close>,
  \<open>mindnote\<close>, \<open>file\<close>, \<open>sheet\<close>, \<open>bitable\<close>, and the listing of its children when
  \<open>HasChild\<close> is set. The task of a node is dispatched before its children are listed.
\<close>

datatype WikiNode = WikiNode "Task option" WikiChildren
  and WikiChildren = NoChild | HasChild WikiListing
  and WikiListing = WikiListingFailed go_error | WikiListed WikiNodes
  and WikiNodes = NoNodes | NextNode WikiNode WikiNodes

fun downloadWikiNode :: "WikiListing \<Rightarrow> walk"
  and wikiNodes :: "WikiNodes \<Rightarrow> walk"
  and wikiNode :: "WikiNode \<Rightarrow> walk"
  and wikiChildren :: "WikiChildren \<Rightarrow> walk" where
  "downloadWikiNode (WikiListingFailed err) = ([], Some err)"
| "downloadWikiNode (WikiListed nodes) = wikiNodes nodes"
| "wikiNodes NoNodes = ([], None)"
| "wikiNodes (NextNode n rest) =
     (case wikiNode n of
        (ts, Some err) \<Rightarrow> (ts, Some err)
      | (ts, None) \<Rightarrow> (case wikiNodes rest of (ts', r) \<Rightarrow> (ts @ ts', r)))"
| "wikiNode (WikiNode leaf children) =
     (case wikiChildren children of
        (ts, r) \<Rightarrow> ((case leaf of None \<Rightarrow> [] | Some t \<Rightarrow> [t]) @ ts, r))"
| "wikiChildren NoChild = ([], None)"
| "wikiChildren (HasChild listing) = downloadWikiNode listing"

text \<open>
  The goroutine of a leaf task: it runs the task; when the task failed it sends the
  error on the unbuffered channel and waits there for the receiver; then it calls
  \<open>wg.Done()\<close>; in the wiki walk it then takes its token back out of the semaphore.
\<close>

datatype goroutine = Running Task | Sending go_error | Finishing | Releasing | Exited

text \<open>
  The main goroutine: it walks (the tasks still to dispatch and the error of the walk);
  in the wiki walk it has called \<open>wg.Add(1)\<close> and waits for room in the semaphore;
  after the walk it starts the goroutine that closes the channel once the wait group is
  at zero, and receives; it has returned.
\<close>

datatype mainState =
  Walking "Task list" "go_error option"
| Acquiring Task "Task list" "go_error option"
| Receiving
| Returned "go_error option"

record crawl =
  mainPc :: mainState
  goroutines :: "goroutine list"
  wg :: nat
  semaphore :: nat
  closerStarted :: bool
  closed :: bool
  written :: "string set"

definition initial :: "walk \<Rightarrow> crawl" where
  "initial w =
     \<lparr>mainPc = Walking (fst w) (snd w), goroutines = [], wg = 0, semaphore = 0,
      closerStarted = False, closed = False, written = {}\<rparr>"

definition maxConcurrency :: nat where
  "maxConcurrency = 10"

text \<open>
  One step of one goroutine. \<open>bound\<close> is the capacity of the semaphore in the wiki walk
  and \<open>None\<close> in the folder walk, which has no semaphore.
\<close>

inductive step :: "nat option \<Rightarrow> crawl \<Rightarrow> crawl \<Rightarrow> bool" for bound :: "nat option" where
  dispatch:
    "mainPc s = Walking (t # ts) e \<Longrightarrow> bound = None \<Longrightarrow>
     step bound s (s\<lparr>mainPc := Walking ts e, wg := wg s + 1,
                      goroutines := goroutines s @ [Running t]\<rparr>)"
| add:
    "mainPc s = Walking (t # ts) e \<Longrightarrow> bound = Some k \<Longrightarrow>
     step bound s (s\<lparr>mainPc := Acquiring t ts e, wg := wg s + 1\<rparr>)"
| acquire:
    "mainPc s = Acquiring t ts e \<Longrightarrow> bound = Some k \<Longrightarrow> semaphore s < k \<Longrightarrow>
     step bound s (s\<lparr>mainPc := Walking ts e, semaphore := semaphore s + 1,
                      goroutines := goroutines s @ [Running t]\<rparr>)"
| walk_failed:
    "mainPc s = Walking [] (Some err) \<Longrightarrow>
     step bound s (s\<lparr>mainPc := Returned (Some err)\<rparr>)"
| walk_done:
    "mainPc s = Walking [] None \<Longrightarrow>
     step bound s (s\<lparr>mainPc := Receiving, closerStarted := True\<rparr>)"
| task_ok:
    "i < length (goroutines s) \<Longrightarrow> goroutines s ! i = Running t \<Longrightarrow> outcome t = None \<Longrightarrow>
     step bound s (s\<lparr>goroutines := (goroutines s)[i := Finishing],
                      written := insert (target t) (written s)\<rparr>)"
| task_failed:
    "i < length (goroutines s) \<Longrightarrow> goroutines s ! i = Running t \<Longrightarrow> outcome t = Some err \<Longrightarrow>
     step bound s (s\<lparr>goroutines := (goroutines s)[i := Sending err]\<rparr>)"
| receive:
    "mainPc s = Receiving \<Longrightarrow> i < length (goroutines s) \<Longrightarrow> goroutines s ! i = Sending err \<Longrightarrow>
     step bound s (s\<lparr>mainPc := Returned (Some err),
                      goroutines := (goroutines s)[i := Finishing]\<rparr>)"
| wg_done:
    "i < length (goroutines s) \<Longrightarrow> goroutines s ! i = Finishing \<Longrightarrow>
     step bound s (s\<lparr>wg := wg s - 1,
                      goroutines := (goroutines s)[i := (if bound = None then Exited else Releasing)]\<rparr>)"
| release:
    "i < length (goroutines s) \<Longrightarrow> goroutines s ! i = Releasing \<Longrightarrow>
     step bound s (s\<lparr>semaphore := semaphore s - 1,
                      goroutines := (goroutines s)[i := Exited]\<rparr>)"
| close:
    "closerStarted s \<Longrightarrow> wg s = 0 \<Longrightarrow> \<not> closed s \<Longrightarrow>
     step bound s (s\<lparr>closed := True\<rparr>)"
| receive_closed:
    "mainPc s = Receiving \<Longrightarrow> closed s \<Longrightarrow>
     step bound s (s\<lparr>mainPc := Returned None\<rparr>)"

inductive reachable :: "nat option \<Rightarrow> crawl \<Rightarrow> crawl \<Rightarrow> bool"
  for bound :: "nat option" and s0 :: crawl where
  reach_init: "reachable bound s0 s0"
| reach_step: "reachable bound s0 s \<Longrightarrow> step bound s s' \<Longrightarrow> reachable bound s0 s'"

definition downloadDocuments :: "DriveListing \<Rightarrow> crawl \<Rightarrow> bool" where
  "downloadDocuments folder s = reachable None (initial (processFolder folder)) s"

definition downloadWiki :: "WikiListing \<Rightarrow> crawl \<Rightarrow> bool" where
  "downloadWiki wiki s = reachable (Some maxConcurrency) (initial (downloadWikiNode wiki)) s"

definition running :: "crawl \<Rightarrow> nat" where
  "running s = length (filter (\<lambda>g. case g of Running t \<Rightarrow> True | _ \<Rightarrow> False) (goroutines s))"

definition inFlight :: "crawl \<Rightarrow> nat" where
  "inFlight s = length (filter (\<lambda>g. g \<noteq> Exited) (goroutines s))"

definition stuck :: "nat option \<Rightarrow> crawl \<Rightarrow> bool" where
  "stuck bound s = (\<forall>s'. \<not> step bound s s')"

fun driveFiles :: "DriveFile list \<Rightarrow> DriveFiles" where
  "driveFiles [] = NoFiles"
| "driveFiles (f # fs) = NextFile f (driveFiles fs)"

fun flatWiki :: "Task list \<Rightarrow> WikiNodes" where
  "flatWiki [] = NoNodes"
| "flatWiki (t # ts) = NextNode (WikiNode (Some t) NoChild) (flatWiki ts)"


section \<open>Example inputs\<close>

definition exampleEnv :: env where
  "exampleEnv =
     \<lparr>UnescapeURL = (\<lambda>u. u), Join = (\<lambda>dir name. dir @ ''/'' @ name), Dir = (\<lambda>path. path),
      SaveMedia = (\<lambda>path bytes. None), MkdirAllErr = (\<lambda>path. None),
      WriteFileErr = (\<lambda>path. None), OpenFileErr = (\<lambda>path. None), CopyErr = (\<lambda>path. None)\<rparr>"

text \<open>A block with the given identity, parent, type and children and no payload.\<close>

definition block :: "string \<Rightarrow> string \<Rightarrow> DocxBlockType \<Rightarrow> string list \<Rightarrow> DocxBlock" where
  "block i parent ty cs =
     \<lparr>BlockID = i, ParentID = parent, Children = cs, BlockType = ty,
      Page = None, Text = None, Heading1 = None, Heading2 = None, Heading3 = None,
      Heading4 = None, Heading5 = None, Heading6 = None, Heading7 = None, Heading8 = None,
      Heading9 = None, Bullet = None, Ordered = None, Code = None, Quote = None,
      Equation = None, Todo = None, Image = None, File = None, Bitable = None,
      Diagram = None, Iframe = None, Table = None, Sheet = None\<rparr>"

text \<open>A text payload of one unstyled run.\<close>

definition plainText :: "string \<Rightarrow> DocxBlockText" where
  "plainText s =
     \<lparr>Style = Some \<lparr>Done = False, Language = 1\<rparr>,
      Elements = [\<lparr>TextRun = Some \<lparr>Content = s, TextElementStyle = None\<rparr>,
                   MentionUser = None, MentionDoc = None, InlineEquation = None\<rparr>]\<rparr>"

text \<open>A fresh parser whose index holds the given blocks.\<close>

definition parserOf :: "bool \<Rightarrow> DocxBlock list \<Rightarrow> Parser" where
  "parserOf html blocks =
     (NewParser \<lparr>UseHTMLTags = html\<rparr> None)
       \<lparr>blockMap := fold (\<lambda>b m. m(BlockID b \<mapsto> b)) blocks Map.empty\<rparr>"

definition textBlock :: "string \<Rightarrow> string \<Rightarrow> string \<Rightarrow> DocxBlock" where
  "textBlock i parent s = (block i parent DocxBlockTypeText [])\<lparr>Text := Some (plainText s)\<rparr>"

text \<open>
  Two runs with two flags each: inline code with a link, and underline with inline code.
\<close>

definition codeLinkStyle :: DocxTextElementStyle where
  "codeLinkStyle =
     \<lparr>Bold = False, Italic = False, Strikethrough = False, Underline = False,
      InlineCode = True, Link = Some \<lparr>LinkURL = ''u''\<rparr>\<rparr>"

definition codeLinkRun :: DocxTextElementTextRun where
  "codeLinkRun = \<lparr>Content = ''x'', TextElementStyle = Some codeLinkStyle\<rparr>"

definition underlineCodeStyle :: DocxTextElementStyle where
  "underlineCodeStyle =
     \<lparr>Bold = False, Italic = False, Strikethrough = False, Underline = True,
      InlineCode = True, Link = None\<rparr>"

definition underlineCodeRun :: DocxTextElementTextRun where
  "underlineCodeRun = \<lparr>Content = ''x'', TextElementStyle = Some underlineCodeStyle\<rparr>"

definition quoteBlocks :: "DocxBlock list" where
  "quoteBlocks =
     [block ''q'' [] DocxBlockTypeQuoteContainer [''t''], textBlock ''t'' ''q'' ''a'']"



text \<open>
  The number of consecutive ordered siblings immediately before an item: \<open>pre\<close> are the
  siblings before it, and the count runs back from the nearest one.
\<close>

definition isOrdered :: "Parser \<Rightarrow> string \<Rightarrow> bool" where
  "isOrdered p c =
     (case blockMap p c of None \<Rightarrow> False | Some s \<Rightarrow> BlockType s = DocxBlockTypeOrdered)"

definition precedingOrdered :: "Parser \<Rightarrow> string list \<Rightarrow> nat" where
  "precedingOrdered p pre = length (takeWhile (isOrdered p) (rev pre))"

text \<open>The siblings ordered, ordered, bullet, ordered under one page.\<close>

definition orderedBlocks :: "DocxBlock list" where
  "orderedBlocks =
     [block ''d'' [] DocxBlockTypePage [''o1'', ''o2'', ''b'', ''o3''],
      (block ''o1'' ''d'' DocxBlockTypeOrdered [])\<lparr>Ordered := Some (plainText ''one'')\<rparr>,
      (block ''o2'' ''d'' DocxBlockTypeOrdered [])\<lparr>Ordered := Some (plainText ''two'')\<rparr>,
      (block ''b'' ''d'' DocxBlockTypeBullet [])\<lparr>Bullet := Some (plainText ''dot'')\<rparr>,
      (block ''o3'' ''d'' DocxBlockTypeOrdered [])\<lparr>Ordered := Some (plainText ''three'')\<rparr>]"

text \<open>
  A computation on the parser appends the tokens \<open>toks\<close> at \<open>p\<close>: started from \<open>p\<close> with
  any content of \<open>ImgTokens\<close> it gives the same value, if it gives one at all, and
  returns the parser it was started from with \<open>toks\<close> appended to \<open>ImgTokens\<close>.
\<close>

definition appends :: "(Parser \<Rightarrow> ('a \<times> Parser) result) \<Rightarrow> Parser \<Rightarrow> string list \<Rightarrow> bool" where
  "appends F p toks =
     (\<forall>u x p'. F (p\<lparr>ImgTokens := u\<rparr>) = Inr (x, p') \<longrightarrow>
        (\<forall>t. F (p\<lparr>ImgTokens := t\<rparr>) = Inr (x, p\<lparr>ImgTokens := t @ toks\<rparr>)))"

definition appendsTokens ::
  "render \<Rightarrow> ((string \<rightharpoonup> DocxBlock) \<Rightarrow> DocxBlock option \<Rightarrow> string list) \<Rightarrow> bool" where
  "appendsTokens rec T = (\<forall>p blk lvl. appends (\<lambda>q. rec q blk lvl) p (T (blockMap p) blk))"

definition childTokens ::
  "((string \<rightharpoonup> DocxBlock) \<Rightarrow> DocxBlock option \<Rightarrow> string list)
     \<Rightarrow> (string \<rightharpoonup> DocxBlock) \<Rightarrow> string list \<Rightarrow> string list" where
  "childTokens T m ids = concat (map (\<lambda>c. T m (m c)) ids)"

text \<open>
  Placing the contents of the cells, the rendering of the cells set apart: what the
  loop over the cells does to the rows once every cell has been rendered.
\<close>

fun placeAll :: "int \<Rightarrow> nat \<Rightarrow> string list \<Rightarrow> string list list \<Rightarrow> string list list result" where
  "placeAll columnSize i [] rows = Inr rows"
| "placeAll columnSize i (content # rest) rows =
     (if columnSize = 0 then Inl DivideByZero
      else rbind (placeCell rows (int i sdiv columnSize) (int i smod columnSize)
                    (RemoveNL content))
             (\<lambda>rows'. placeAll columnSize (i + 1) rest rows'))"

text \<open>A page with an image and a bullet that has an image of its own.\<close>

definition imageBlocks :: "DocxBlock list" where
  "imageBlocks =
     [(block ''d'' [] DocxBlockTypePage [''i1'', ''b''])\<lparr>Page := Some (plainText ''T'')\<rparr>,
      (block ''i1'' ''d'' DocxBlockTypeImage [])\<lparr>Image := Some \<lparr>ImageToken = ''tok1''\<rparr>\<rparr>,
      (block ''b'' ''d'' DocxBlockTypeBullet [''i2''])\<lparr>Bullet := Some (plainText ''x'')\<rparr>,
      (block ''i2'' ''b'' DocxBlockTypeImage [])\<lparr>Image := Some \<lparr>ImageToken = ''tok2''\<rparr>\<rparr>]"

definition imageDoc :: DocxDocument where
  "imageDoc = \<lparr>DocumentID = ''d'', RevisionID = 1, DocumentTitle = ''T''\<rparr>"

definition imageMarkdown :: string where
  "imageMarkdown =
     ''# T'' @ [NL, NL] @ ''![](tok1)'' @ [NL, NL] @ ''- x'' @ [NL, TAB] @ ''![](tok2)'' @ [NL, NL]"

text \<open>A page whose text paragraph has an image as its child.\<close>

definition nestedImageBlocks :: "DocxBlock list" where
  "nestedImageBlocks =
     [(block ''d'' [] DocxBlockTypePage [''t''])\<lparr>Page := Some (plainText ''T'')\<rparr>,
      (block ''t'' ''d'' DocxBlockTypeText [''i''])\<lparr>Text := Some (plainText ''x'')\<rparr>,
      (block ''i'' ''t'' DocxBlockTypeImage [])\<lparr>Image := Some \<lparr>ImageToken = ''tok''\<rparr>\<rparr>]"






text \<open>
  A client whose two download calls fail, and an environment in which writing a file
  fails.
\<close>

definition failingClient :: Client where
  "failingClient =
     \<lparr>DownloadDriveFile = (\<lambda>token. Inl ''not found''),
      DownloadDriveMedia = (\<lambda>token. Inl ''forbidden''),
      GetSheetContent = (\<lambda>token. Inl ''unavailable''),
      GetBitableContent = (\<lambda>token. Inl ''unavailable'')\<rparr>"

definition readOnlyEnv :: env where
  "readOnlyEnv = exampleEnv\<lparr>WriteFileErr := (\<lambda>path. Some ''read-only file system'')\<rparr>"

section \<open>Evaluation rules\<close>

lemmas render_defs = ParseDocxBlock_body_def withText_def withPrefix_def rbind_def Repeat_def
  ParseDocxBlockText_def ParseDocxTextElement_def ParseDocxTextElementTextRun_def
  ParseDocxBlockPage_def ParseDocxBlockCallout_def ParseDocxBlockHeading_def HeadingField_def
  ParseDocxBlockBullet_def ParseDocxBlockOrdered_def orderOf_def ParseDocxBlockTableCell_def
  ParseDocxBlockQuoteContainer_def ParseDocxBlockGrid_def ParseDocxBlockTable_def
  ParseDocxBlockCode_def ParseDocxBlockTodo_def ParseDocxBlockImage_def

lemmas example_defs = exampleEnv_def block_def plainText_def parserOf_def textBlock_def
  NewParser_def

section \<open>The inline styler\<close>

text \<open>
  C5, as amended. A text run with more than one flag gets exactly one wrapper, the one
  of the first flag it has in the order bold, italic, strikethrough, underline, inline
  code, link, and a run without flags (or without a style) is its raw content. The HTML
  mode changes the wrapper of bold, italic and strikethrough only: underline is
  \<open><u>\<close> in both modes, inline code is a pair of backquotes in both modes, a link
  is \<open>[content](url)\<close> in both modes. The equation holds for every run, so for the
  runs with several flags and for the runs with none.
\<close>

theorem textrun_priority:
  "ParseDocxTextElementTextRun E p tr =
     (case TextElementStyle tr of
        None \<Rightarrow> Content tr
      | Some st \<Rightarrow> wrapped E (useHTMLTags p) st (Content tr))"
  by (auto simp: ParseDocxTextElementTextRun_def wrapped_def flagsOf_def flagPriority_def
        linkTarget_def split: option.splits)

text \<open>
  C5 as stated promises, for a run with more than one flag, Markdown delimiters in the
  normal mode and HTML tags in the HTML mode. A run with the two flags inline code and
  link, rendered in the HTML mode, is wrapped in backquotes, which is no HTML tag; a run
  with the two flags underline and inline code, rendered in the normal mode, is wrapped
  in the HTML tag \<open><u>\<close>, which is no Markdown delimiter.
\<close>

theorem textrun_html_mode_counterexample:
  "flagsOf codeLinkStyle = [FlagInlineCode, FlagLink] \<and>
   useHTMLTags (parserOf True []) \<and>
   ParseDocxTextElementTextRun exampleEnv (parserOf True []) codeLinkRun = [BQ] @ ''x'' @ [BQ] \<and>
   flagsOf underlineCodeStyle = [FlagUnderline, FlagInlineCode] \<and>
   \<not> useHTMLTags (parserOf False []) \<and>
   ParseDocxTextElementTextRun exampleEnv (parserOf False []) underlineCodeRun = ''<u>x</u>''"
  by (simp add: ParseDocxTextElementTextRun_def codeLinkRun_def codeLinkStyle_def
        underlineCodeRun_def underlineCodeStyle_def flagsOf_def flagPriority_def example_defs)

section \<open>The loops over the children\<close>

lemma joinWith_Cons: "joinWith sep (x # xs) = x @ (if xs = [] then [] else sep @ joinWith sep xs)"
  by (cases xs) simp_all

lemma renderings_length:
  "renderings rec p ids lvl = Inr (outs, p') \<Longrightarrow> length outs = length ids"
  by (induction ids arbitrary: p outs p')
     (auto simp: rbind_def split: sum.splits prod.splits)

lemma quote_loop_renderings:
  "quote_loop rec p ids buf =
     rbind (renderings rec p ids 0) (\<lambda>(outs, p'). Inr (buf @ quoteContainerText outs, p'))"
proof (induction ids arbitrary: p buf)
  case Nil
  show ?case by (simp add: rbind_def quoteContainerText_def)
next
  case (Cons c rest)
  show ?case
  proof (cases "rec p (blockMap p c) 0")
    case (Inl e)
    then show ?thesis by (simp add: rbind_def)
  next
    case (Inr r)
    obtain s p1 where r: "r = (s, p1)" by (cases r)
    show ?thesis
    proof (cases "renderings rec p1 rest 0")
      case (Inl e)
      with Inr r Cons.IH [of p1] show ?thesis by (simp add: rbind_def)
    next
      case Inr2: (Inr q)
      obtain outs p2 where q: "q = (outs, p2)" by (cases q)
      from Inr2 q have len: "length outs = length rest" by (simp add: renderings_length)
      then have e: "(rest = []) = (outs = [])" by auto
      from Inr r Inr2 q Cons.IH [of p1] e show ?thesis
        by (auto simp: rbind_def quoteContainerText_def joinWith_Cons)
    qed
  qed
qed

section \<open>The quote container\<close>

text \<open>
  C8, as amended. The output of a quote container is, for every child in order, the
  marker \<open>"> "\<close>, the rendering of the child at level 0 without its trailing newlines,
  and two spaces; the pieces are joined by one newline, with none after the last. The
  container fails exactly when the rendering of a child fails.
\<close>

theorem quote_container_output:
  "ParseDocxBlockQuoteContainer rec p b =
     rbind (renderings rec p (Children b) 0) (\<lambda>(outs, p'). Inr (quoteContainerText outs, p'))"
  by (simp add: ParseDocxBlockQuoteContainer_def quote_loop_renderings)

text \<open>
  C8 as stated has no quote marker. A container with the one child "a" renders as
  \<open>"> a  "\<close>, and the pieces of the claim give \<open>"a  "\<close>.
\<close>

theorem quote_container_counterexample:
  "ParseDocxBlockQuoteContainer (ParseDocxBlock exampleEnv 1) (parserOf False quoteBlocks)
       (block ''q'' [] DocxBlockTypeQuoteContainer [''t''])
     = Inr (''> a  '', parserOf False quoteBlocks) \<and>
   renderings (ParseDocxBlock exampleEnv 1) (parserOf False quoteBlocks) [''t''] 0
     = Inr ([''a'' @ [NL]], parserOf False quoteBlocks) \<and>
   quoteContainerSpec [''a'' @ [NL]] = ''a  '' \<and>
   ''> a  '' \<noteq> quoteContainerSpec [''a'' @ [NL]]"
  by (simp add: render_defs example_defs quoteBlocks_def quoteContainerSpec_def TrimRightNL_def)

section \<open>Ordered lists\<close>

lemma itoa_digit: "n < 10 \<Longrightarrow> itoa n = [digit n]"
  by (subst itoa.simps) simp

lemma countBack_run:
  "k \<le> length cs \<Longrightarrow> \<forall>c\<in>set (take k cs). blockMap p c \<noteq> None \<Longrightarrow>
   countBack p cs k order = Inr (order + length (takeWhile (isOrdered p) (rev (take k cs))))"
proof (induction k arbitrary: order)
  case 0
  then show ?case by simp
next
  case (Suc i)
  then have i: "i < length cs" by simp
  then have tk: "take (Suc i) cs = take i cs @ [cs ! i]" by (simp add: take_Suc_conv_app_nth)
  with Suc.prems have res: "blockMap p (cs ! i) \<noteq> None" and
    rest: "\<forall>c\<in>set (take i cs). blockMap p c \<noteq> None" by auto
  from res obtain s where s: "blockMap p (cs ! i) = Some s" by auto
  from i rest have IH: "\<And>order. countBack p cs i order =
      Inr (order + length (takeWhile (isOrdered p) (rev (take i cs))))"
    using Suc.IH by simp
  from s have io: "isOrdered p (cs ! i) = (BlockType s = DocxBlockTypeOrdered)"
    by (simp add: isOrdered_def)
  show ?case using s tk IH io by simp
qed

lemma findOrder_first:
  "cs = pre @ blockId # post \<Longrightarrow> blockId \<notin> set pre \<Longrightarrow> idx \<le> length pre \<Longrightarrow>
   findOrder p cs blockId idx = countBack p cs (length pre) 1"
proof (induction "length pre - idx" arbitrary: idx)
  case 0
  then have "idx = length pre" by simp
  with 0 show ?case by (subst findOrder.simps) simp
next
  case (Suc d)
  then have lt: "idx < length pre" by simp
  with Suc.prems have ne: "cs ! idx \<noteq> blockId"
    by (metis nth_append nth_mem)
  from lt Suc.prems have "idx < length cs" by simp
  moreover have "findOrder p cs blockId (idx + 1) = countBack p cs (length pre) 1"
    using Suc lt by (intro Suc.hyps(1)) auto
  ultimately show ?case using ne by (subst findOrder.simps) simp
qed

lemma blockMap_orderedBlocks:
  "blockMap (parserOf False orderedBlocks) =
     [''d'' \<mapsto> orderedBlocks ! 0, ''o1'' \<mapsto> orderedBlocks ! 1, ''o2'' \<mapsto> orderedBlocks ! 2,
      ''b'' \<mapsto> orderedBlocks ! 3, ''o3'' \<mapsto> orderedBlocks ! 4]"
  by (simp add: parserOf_def orderedBlocks_def block_def)

text \<open>
  C2. Let the parent of an ordered block be in the index, let the block stand among the
  children of its parent with the siblings \<open>pre\<close> before its first occurrence, and let
  these siblings be in the index. Then the number computed for the block is one plus the
  number of consecutive ordered siblings immediately before it, and this number,
  followed by a dot and a space, is what the block prints before its text.
\<close>

theorem ordered_number:
  assumes "blockMap p (ParentID b) = Some parent"
    and "Children parent = pre @ BlockID b # post"
    and "BlockID b \<notin> set pre"
    and "\<forall>c\<in>set pre. blockMap p c \<noteq> None"
  shows "orderOf p b = Inr (1 + precedingOrdered p pre) \<and>
         ParseDocxBlockOrdered E rec p b lvl =
           rbind (ParseDocxBlockText E p (Ordered b))
             (\<lambda>t. render_children rec p (Children b) (lvl + 1) []
                     (itoa (1 + precedingOrdered p pre) @ ''. '' @ t))"
proof -
  have "findOrder p (Children parent) (BlockID b) 0 = countBack p (Children parent) (length pre) 1"
    using assms(2,3) by (intro findOrder_first) auto
  also have "\<dots> = Inr (1 + length (takeWhile (isOrdered p) (rev (take (length pre) (Children parent)))))"
    using assms(2,4) by (intro countBack_run) auto
  finally have "orderOf p b = Inr (1 + precedingOrdered p pre)"
    using assms(1,2) by (simp add: orderOf_def precedingOrdered_def)
  then show ?thesis by (simp add: ParseDocxBlockOrdered_def rbind_def)
qed

text \<open>
  The siblings ordered, ordered, bullet, ordered: the numbers are 1, 2 and, for the last
  item, 1 again, and the last item prints \<open>"1. three"\<close>.
\<close>

theorem ordered_number_witness:
  "orderOf (parserOf False orderedBlocks) (orderedBlocks ! 1) = Inr 1 \<and>
   orderOf (parserOf False orderedBlocks) (orderedBlocks ! 2) = Inr 2 \<and>
   orderOf (parserOf False orderedBlocks) (orderedBlocks ! 4) = Inr 1 \<and>
   ParseDocxBlockOrdered exampleEnv (ParseDocxBlock exampleEnv 0)
       (parserOf False orderedBlocks) (orderedBlocks ! 4) 0
     = Inr (''1. three'' @ [NL], parserOf False orderedBlocks)"
proof -
  let ?p = "parserOf False orderedBlocks"
  have a: "orderOf ?p (orderedBlocks ! 1) = Inr (1 + precedingOrdered ?p [])"
    using ordered_number [of ?p "orderedBlocks ! 1" "orderedBlocks ! 0" "[]" "[''o2'', ''b'', ''o3'']"]
    by (simp add: blockMap_orderedBlocks) (simp add: orderedBlocks_def block_def)
  have b: "orderOf ?p (orderedBlocks ! 2) = Inr (1 + precedingOrdered ?p [''o1''])"
    using ordered_number [of ?p "orderedBlocks ! 2" "orderedBlocks ! 0" "[''o1'']" "[''b'', ''o3'']"]
    by (simp add: blockMap_orderedBlocks) (simp add: orderedBlocks_def block_def)
  have c: "orderOf ?p (orderedBlocks ! 4) = Inr (1 + precedingOrdered ?p [''o1'', ''o2'', ''b'']) \<and>
      ParseDocxBlockOrdered exampleEnv (ParseDocxBlock exampleEnv 0) ?p (orderedBlocks ! 4) 0 =
        rbind (ParseDocxBlockText exampleEnv ?p (Ordered (orderedBlocks ! 4)))
          (\<lambda>t. render_children (ParseDocxBlock exampleEnv 0) ?p (Children (orderedBlocks ! 4)) (0 + 1) []
                  (itoa (1 + precedingOrdered ?p [''o1'', ''o2'', ''b'']) @ ''. '' @ t))"
    using ordered_number [of ?p "orderedBlocks ! 4" "orderedBlocks ! 0" "[''o1'', ''o2'', ''b'']" "[]"
        exampleEnv "ParseDocxBlock exampleEnv 0" 0]
    by (simp add: blockMap_orderedBlocks) (simp add: orderedBlocks_def block_def)
  have n: "precedingOrdered ?p [] = 0" "precedingOrdered ?p [''o1''] = 1"
    "precedingOrdered ?p [''o1'', ''o2'', ''b''] = 0"
    by (simp_all add: precedingOrdered_def isOrdered_def blockMap_orderedBlocks)
       (simp_all add: orderedBlocks_def block_def)
  show ?thesis using a b c unfolding n
    by (simp add: itoa_digit digit_def rbind_def ParseDocxBlockText_def ParseDocxTextElement_def
          ParseDocxTextElementTextRun_def orderedBlocks_def block_def plainText_def)
qed

section \<open>The image tokens\<close>

lemma appendsD:
  assumes "appends F p toks" "F p = Inr (x, p')"
  shows "F (p\<lparr>ImgTokens := t\<rparr>) = Inr (x, p\<lparr>ImgTokens := t @ toks\<rparr>)"
proof -
  have "F (p\<lparr>ImgTokens := ImgTokens p\<rparr>) = Inr (x, p')" using assms(2) by simp
  with assms(1) show ?thesis unfolding appends_def by blast
qed

lemma appends_result:
  assumes "appends F p toks" "F p = Inr (x, p')"
  shows "p' = p\<lparr>ImgTokens := ImgTokens p @ toks\<rparr>"
  using appendsD [OF assms, of "ImgTokens p"] assms(2) by simp

lemma appends_cong:
  assumes "\<And>u. F (p\<lparr>ImgTokens := u\<rparr>) = G (p\<lparr>ImgTokens := u\<rparr>)"
  shows "appends F p toks = appends G p toks"
  unfolding appends_def by (simp add: assms)

lemma appends_return: "appends (\<lambda>q. Inr (x, q)) p []"
  unfolding appends_def by simp

lemma appends_fail: "appends (\<lambda>q. Inl e) p toks"
  unfolding appends_def by simp

lemma appends_bind:
  assumes F: "appends F p t1" and G: "\<And>x. appends (G x) p t2"
  shows "appends (\<lambda>q. rbind (F q) (\<lambda>(x, q'). G x q')) p (t1 @ t2)"
  unfolding appends_def
proof (intro allI impI)
  fix u y p' t
  assume a: "rbind (F (p\<lparr>ImgTokens := u\<rparr>)) (\<lambda>(x, q'). G x q') = Inr (y, p')"
  then obtain x p1 where f: "F (p\<lparr>ImgTokens := u\<rparr>) = Inr (x, p1)"
    and g: "G x p1 = Inr (y, p')"
    by (auto simp: rbind_def split: sum.splits)
  from F f have fa: "\<And>t. F (p\<lparr>ImgTokens := t\<rparr>) = Inr (x, p\<lparr>ImgTokens := t @ t1\<rparr>)"
    unfolding appends_def by blast
  from fa [of u] f have "p1 = p\<lparr>ImgTokens := u @ t1\<rparr>" by simp
  with g G [of x] have ga: "\<And>t. G x (p\<lparr>ImgTokens := t\<rparr>) = Inr (y, p\<lparr>ImgTokens := t @ t2\<rparr>)"
    unfolding appends_def by blast
  show "rbind (F (p\<lparr>ImgTokens := t\<rparr>)) (\<lambda>(x, q'). G x q') = Inr (y, p\<lparr>ImgTokens := t @ (t1 @ t2)\<rparr>)"
    using fa [of t] ga [of "t @ t1"] by (simp add: rbind_def)
qed

lemma appends_map:
  assumes "appends F p toks"
  shows "appends (\<lambda>q. rbind (F q) (\<lambda>(x, q'). Inr (f x, q'))) p toks"
proof -
  have "appends (\<lambda>q. rbind (F q) (\<lambda>(x, q'). Inr (f x, q'))) p (toks @ [])"
    by (rule appends_bind [OF assms]) (rule appends_return)
  then show ?thesis by simp
qed

lemma appends_pure:
  assumes "\<And>x. appends (G x) p toks"
  shows "appends (\<lambda>q. rbind r (\<lambda>x. G x q)) p toks"
  using assms unfolding appends_def rbind_def by (cases r) auto

lemma appendsTokensD:
  "appendsTokens rec T \<Longrightarrow> appends (\<lambda>q. rec q blk lvl) p (T (blockMap p) blk)"
  unfolding appendsTokens_def by blast

lemma renderings_appends:
  assumes "appendsTokens rec T"
  shows "appends (\<lambda>q. renderings rec q ids lvl) p (childTokens T (blockMap p) ids)"
proof (induction ids)
  case Nil
  show ?case by (simp add: childTokens_def appends_return)
next
  case (Cons c rest)
  let ?G = "\<lambda>s q'. rbind (renderings rec q' rest lvl) (\<lambda>(ss, q''). Inr (s # ss, q''))"
  have G: "\<And>s. appends (?G s) p (childTokens T (blockMap p) rest)"
    by (rule appends_map [OF Cons.IH])
  have "appends (\<lambda>q. rbind (rec q (blockMap p c) lvl) (\<lambda>(s, q'). ?G s q')) p
          (T (blockMap p) (blockMap p c) @ childTokens T (blockMap p) rest)"
    by (rule appends_bind [OF appendsTokensD [OF assms] G])
  moreover have "appends (\<lambda>q. renderings rec q (c # rest) lvl) p toks =
      appends (\<lambda>q. rbind (rec q (blockMap p c) lvl) (\<lambda>(s, q'). ?G s q')) p toks" for toks
    by (rule appends_cong) simp
  ultimately show ?case by (simp add: childTokens_def)
qed

lemma render_children_renderings:
  "render_children rec p ids lvl post buf =
     rbind (renderings rec p ids lvl)
       (\<lambda>(outs, p'). Inr (buf @ concat (map (\<lambda>s. s @ post) outs), p'))"
proof (induction ids arbitrary: p buf)
  case Nil
  show ?case by (simp add: rbind_def)
next
  case (Cons c rest)
  show ?case
    by (cases "rec p (blockMap p c) lvl")
       (auto simp: rbind_def Cons.IH split: sum.splits prod.splits)
qed

lemma render_children_appends:
  assumes "appendsTokens rec T"
  shows "appends (\<lambda>q. render_children rec q ids lvl post buf) p (childTokens T (blockMap p) ids)"
  unfolding render_children_renderings
  by (rule appends_map [OF renderings_appends [OF assms]])

lemma quote_loop_appends:
  assumes "appendsTokens rec T"
  shows "appends (\<lambda>q. quote_loop rec q ids buf) p (childTokens T (blockMap p) ids)"
  unfolding quote_loop_renderings
  by (rule appends_map [OF renderings_appends [OF assms]])

lemma childTokens_append [simp]:
  "childTokens T m (xs @ ys) = childTokens T m xs @ childTokens T m ys"
  by (simp add: childTokens_def)

lemma childTokens_Nil [simp]: "childTokens T m [] = []"
  by (simp add: childTokens_def)

lemma cells_loop_renderings:
  "cells_loop rec p cs i ids rows = Inr (rows', p') \<longleftrightarrow>
     (\<exists>outs. renderings rec p ids 0 = Inr (outs, p') \<and> placeAll cs i outs rows = Inr rows')"
proof (induction ids arbitrary: p i rows)
  case Nil
  show ?case by auto
next
  case (Cons c rest)
  show ?case
  proof (cases "rec p (blockMap p c) 0")
    case (Inl e)
    then show ?thesis by (simp add: rbind_def)
  next
    case (Inr r)
    obtain s p1 where r: "r = (s, p1)" by (cases r)
    show ?thesis
    proof (cases "cs = 0")
      case True
      with Inr r show ?thesis by (auto simp: rbind_def split: sum.splits)
    next
      case False
      show ?thesis
      proof (cases "placeCell rows (int i sdiv cs) (int i smod cs) (RemoveNL s)")
        case (Inl e)
        with Inr r False show ?thesis by (auto simp: rbind_def split: sum.splits)
      next
        case Inr2: (Inr rows1)
        with Inr r False Cons.IH [of p1 "i + 1" rows1] show ?thesis
          by (auto simp: rbind_def split: sum.splits)
      qed
    qed
  qed
qed

lemma cells_loop_appends:
  assumes "appendsTokens rec T"
  shows "appends (\<lambda>q. cells_loop rec q cs i ids rows) p (childTokens T (blockMap p) ids)"
  unfolding appends_def
proof (intro allI impI)
  fix u rows' p' t
  assume "cells_loop rec (p\<lparr>ImgTokens := u\<rparr>) cs i ids rows = Inr (rows', p')"
  then obtain outs where o: "renderings rec (p\<lparr>ImgTokens := u\<rparr>) ids 0 = Inr (outs, p')"
    and pl: "placeAll cs i outs rows = Inr rows'"
    unfolding cells_loop_renderings by blast
  from renderings_appends [OF assms, of ids 0 p] o
  have "renderings rec (p\<lparr>ImgTokens := t\<rparr>) ids 0
          = Inr (outs, p\<lparr>ImgTokens := t @ childTokens T (blockMap p) ids\<rparr>)"
    unfolding appends_def by blast
  with pl show "cells_loop rec (p\<lparr>ImgTokens := t\<rparr>) cs i ids rows
          = Inr (rows', p\<lparr>ImgTokens := t @ childTokens T (blockMap p) ids\<rparr>)"
    unfolding cells_loop_renderings by blast
qed

lemma grid_loop_appends:
  assumes "appendsTokens rec T"
  shows "appends (\<lambda>q. grid_loop rec q cols lvl buf) p
           (childTokens T (blockMap p) (concat (map (\<lambda>c. case blockMap p c of None \<Rightarrow> [] | Some columnBlock \<Rightarrow> Children columnBlock) cols)))"
proof (induction cols arbitrary: buf)
  case Nil
  show ?case by (simp add: appends_return)
next
  case (Cons c rest)
  show ?case
  proof (cases "blockMap p c")
    case None
    have "appends (\<lambda>q. grid_loop rec q (c # rest) lvl buf) p toks =
          appends (\<lambda>q. Inl NilDereference :: (string \<times> Parser) result) p toks" for toks
      by (rule appends_cong) (simp add: None)
    then show ?thesis by (simp add: appends_fail)
  next
    case (Some col)
    have "appends (\<lambda>q. grid_loop rec q (c # rest) lvl buf) p toks =
          appends (\<lambda>q. rbind (render_children rec q (Children col) lvl [] buf)
                           (\<lambda>(buf', q'). grid_loop rec q' rest lvl buf')) p toks" for toks
      by (rule appends_cong) (simp add: Some)
    moreover have "appends (\<lambda>q. rbind (render_children rec q (Children col) lvl [] buf)
                           (\<lambda>(buf', q'). grid_loop rec q' rest lvl buf')) p
          (childTokens T (blockMap p) (Children col)
           @ childTokens T (blockMap p) (concat (map (\<lambda>c. case blockMap p c of None \<Rightarrow> [] | Some columnBlock \<Rightarrow> Children columnBlock) rest)))"
      by (rule appends_bind [OF render_children_appends [OF assms]]) (rule Cons.IH)
    ultimately show ?thesis by (simp add: Some)
  qed
qed

lemma ParseDocxTextElement_indep [simp]:
  "ParseDocxTextElement E (p\<lparr>ImgTokens := u\<rparr>) e inline = ParseDocxTextElement E p e inline"
  by (simp add: ParseDocxTextElement_def ParseDocxTextElementTextRun_def
        cong: if_cong option.case_cong)

lemma ParseDocxBlockText_indep [simp]:
  "ParseDocxBlockText E (p\<lparr>ImgTokens := u\<rparr>) b = ParseDocxBlockText E p b"
  by (cases b) (simp_all add: ParseDocxBlockText_def)

lemma countBack_indep [simp]:
  "countBack (p\<lparr>ImgTokens := u\<rparr>) cs k order = countBack p cs k order"
  by (induction k arbitrary: order) (simp_all split: option.splits)

lemma findOrder_indep [simp]:
  "findOrder (p\<lparr>ImgTokens := u\<rparr>) cs blockId idx = findOrder p cs blockId idx"
proof (induction "length cs - idx" arbitrary: idx)
  case 0
  then show ?case by (subst (1 2) findOrder.simps) simp
next
  case (Suc d)
  then have "findOrder (p\<lparr>ImgTokens := u\<rparr>) cs blockId (idx + 1) = findOrder p cs blockId (idx + 1)"
    by (intro Suc.hyps(1)) simp
  then show ?case by (subst (1 2) findOrder.simps) simp
qed

lemma orderOf_indep [simp]: "orderOf (p\<lparr>ImgTokens := u\<rparr>) b = orderOf p b"
  by (simp add: orderOf_def split: option.splits)

lemma leaf_indep [simp]:
  "ParseDocxBlockCode E (p\<lparr>ImgTokens := u\<rparr>) b = ParseDocxBlockCode E p b"
  "ParseDocxBlockTodo E (p\<lparr>ImgTokens := u\<rparr>) b = ParseDocxBlockTodo E p b"
  "ParseDocxBlockFile E (p\<lparr>ImgTokens := u\<rparr>) f = ParseDocxBlockFile E p f"
  "ParseDocxBlockSheet (p\<lparr>ImgTokens := u\<rparr>) sh = ParseDocxBlockSheet p sh"
  "ParseDocxBlockBitable (p\<lparr>ImgTokens := u\<rparr>) bt = ParseDocxBlockBitable p bt"
  by (simp_all add: ParseDocxBlockCode_def ParseDocxBlockTodo_def ParseDocxBlockFile_def
        downloadFileBlock_def ParseDocxBlockSheet_def ParseDocxBlockBitable_def
        cong: if_cong option.case_cong sum.case_cong)

lemma appends_pure':
  assumes "\<And>u. r (p\<lparr>ImgTokens := u\<rparr>) = r p" and "\<And>x. appends (G x) p toks"
  shows "appends (\<lambda>q. rbind (r q) (\<lambda>x. G x q)) p toks"
proof -
  have "appends (\<lambda>q. rbind (r q) (\<lambda>x. G x q)) p toks = appends (\<lambda>q. rbind (r p) (\<lambda>x. G x q)) p toks"
    by (rule appends_cong) (simp add: assms(1))
  then show ?thesis using appends_pure [of G p toks "r p"] assms(2) by simp
qed

lemma withText_appends:
  assumes "\<And>u. r (p\<lparr>ImgTokens := u\<rparr>) = r p"
  shows "appends (\<lambda>q. withText pre q (r q)) p []"
  unfolding withText_def
  by (rule appends_pure' [OF assms]) (rule appends_return)

lemma withPrefix_appends:
  assumes "appends F p toks"
  shows "appends (\<lambda>q. withPrefix pre (F q)) p toks"
  unfolding withPrefix_def by (rule appends_map [OF assms])


lemma page_appends:
  assumes rec: "appendsTokens rec T"
  shows "appends (\<lambda>q. ParseDocxBlockPage E rec q b) p (childTokens T (blockMap p) (Children b))"
  unfolding ParseDocxBlockPage_def
  by (rule appends_pure') (simp, rule render_children_appends [OF rec])

lemma callout_appends:
  assumes rec: "appendsTokens rec T"
  shows "appends (\<lambda>q. ParseDocxBlockCallout rec q b) p (childTokens T (blockMap p) (Children b))"
  unfolding ParseDocxBlockCallout_def by (rule render_children_appends [OF rec])

lemma heading_appends:
  assumes rec: "appendsTokens rec T"
  shows "appends (\<lambda>q. ParseDocxBlockHeading E rec q b k) p (childTokens T (blockMap p) (Children b))"
  unfolding ParseDocxBlockHeading_def
  by (rule appends_pure') (simp, rule render_children_appends [OF rec])

lemma bullet_appends:
  assumes rec: "appendsTokens rec T"
  shows "appends (\<lambda>q. ParseDocxBlockBullet E rec q b lvl) p (childTokens T (blockMap p) (Children b))"
  unfolding ParseDocxBlockBullet_def
  by (rule appends_pure') (simp, rule render_children_appends [OF rec])

lemma ordered_appends:
  assumes rec: "appendsTokens rec T"
  shows "appends (\<lambda>q. ParseDocxBlockOrdered E rec q b lvl) p (childTokens T (blockMap p) (Children b))"
  unfolding ParseDocxBlockOrdered_def
  apply (rule appends_pure')
   apply simp
  apply (rule appends_pure')
   apply simp
  apply (rule render_children_appends [OF rec])
  done

lemma tablecell_appends:
  assumes rec: "appendsTokens rec T"
  shows "appends (\<lambda>q. ParseDocxBlockTableCell rec q b) p (childTokens T (blockMap p) (Children b))"
  unfolding ParseDocxBlockTableCell_def by (rule render_children_appends [OF rec])

lemma quotecontainer_appends:
  assumes rec: "appendsTokens rec T"
  shows "appends (\<lambda>q. ParseDocxBlockQuoteContainer rec q b) p (childTokens T (blockMap p) (Children b))"
  unfolding ParseDocxBlockQuoteContainer_def by (rule quote_loop_appends [OF rec])

lemma grid_appends:
  assumes rec: "appendsTokens rec T"
  shows "appends (\<lambda>q. ParseDocxBlockGrid rec q b lvl) p
     (childTokens T (blockMap p) (concat (map (\<lambda>c. case blockMap p c of None \<Rightarrow> [] | Some columnBlock \<Rightarrow> Children columnBlock) (Children b))))"
  unfolding ParseDocxBlockGrid_def by (rule grid_loop_appends [OF rec])

lemma table_appends:
  assumes rec: "appendsTokens rec T"
  shows "appends (\<lambda>q. ParseDocxBlockTable rec q tb) p
     (childTokens T (blockMap p) (case tb of None \<Rightarrow> [] | Some t \<Rightarrow> Cells t))"
proof (cases tb)
  case None
  then show ?thesis by (simp add: ParseDocxBlockTable_def appends_fail)
next
  case (Some t)
  show ?thesis
  proof (cases "Property t")
    case None
    with Some show ?thesis by (simp add: ParseDocxBlockTable_def appends_fail)
  next
    case Some2: (Some pr)
    have "appends (\<lambda>q. rbind (cells_loop rec q (ColumnSize pr) 0 (Cells t) [])
                    (\<lambda>(rows, p'). Inr (f rows, p'))) p (childTokens T (blockMap p) (Cells t))" for f :: "string list list \<Rightarrow> string"
      by (rule appends_map [OF cells_loop_appends [OF rec]])
    then have "appends (\<lambda>q. rbind r (\<lambda>M. rbind (cells_loop rec q (ColumnSize pr) 0 (Cells t) [])
                    (\<lambda>(rows, p'). Inr (f M rows, p')))) p (childTokens T (blockMap p) (Cells t))"
      for f :: "mergeInfoMap \<Rightarrow> string list list \<Rightarrow> string" and r
      by (intro appends_pure)
    with Some Some2 show ?thesis by (simp add: ParseDocxBlockTable_def)
  qed
qed

lemma image_appends:
  "appends (\<lambda>q. ParseDocxBlockImage q img) p (case img of None \<Rightarrow> [] | Some i \<Rightarrow> [ImageToken i])"
  unfolding appends_def ParseDocxBlockImage_def by (cases img) simp_all

lemma default_appends:
  assumes rec: "appendsTokens rec T"
  shows "appends (\<lambda>q. render_children rec q (Children b) lvl [] tabs) p
     (childTokens T (blockMap p) (Children b))"
  by (rule render_children_appends [OF rec])

lemma body_appends_block:
  assumes rec: "appendsTokens rec T"
  shows "appends (\<lambda>q. ParseDocxBlock_body E rec q (Some b) lvl) p
     (ownImgTokens b @ childTokens T (blockMap p) (descend (blockMap p) b))"
  unfolding ParseDocxBlock_body_def
proof (rule appends_pure)
  fix tabs
  note intros = withPrefix_appends withText_appends page_appends [OF rec] callout_appends [OF rec]
    heading_appends [OF rec] bullet_appends [OF rec] ordered_appends [OF rec]
    tablecell_appends [OF rec] quotecontainer_appends [OF rec] grid_appends [OF rec]
    table_appends [OF rec] image_appends default_appends [OF rec]
  show "appends (\<lambda>q. case Some b of None \<Rightarrow> Inl NilDereference
          | Some b \<Rightarrow> (case BlockType b of
                 DocxBlockTypePage \<Rightarrow> withPrefix tabs (ParseDocxBlockPage E rec q b)
               | DocxBlockTypeText \<Rightarrow> withText tabs q (ParseDocxBlockText E q (Text b))
               | DocxBlockTypeHeading1 \<Rightarrow> withPrefix tabs (ParseDocxBlockHeading E rec q b 1)
               | DocxBlockTypeHeading2 \<Rightarrow> withPrefix tabs (ParseDocxBlockHeading E rec q b 2)
               | DocxBlockTypeHeading3 \<Rightarrow> withPrefix tabs (ParseDocxBlockHeading E rec q b 3)
               | DocxBlockTypeHeading4 \<Rightarrow> withPrefix tabs (ParseDocxBlockHeading E rec q b 4)
               | DocxBlockTypeHeading5 \<Rightarrow> withPrefix tabs (ParseDocxBlockHeading E rec q b 5)
               | DocxBlockTypeHeading6 \<Rightarrow> withPrefix tabs (ParseDocxBlockHeading E rec q b 6)
               | DocxBlockTypeHeading7 \<Rightarrow> withPrefix tabs (ParseDocxBlockHeading E rec q b 7)
               | DocxBlockTypeHeading8 \<Rightarrow> withPrefix tabs (ParseDocxBlockHeading E rec q b 8)
               | DocxBlockTypeHeading9 \<Rightarrow> withPrefix tabs (ParseDocxBlockHeading E rec q b 9)
               | DocxBlockTypeBullet \<Rightarrow>
                   withPrefix tabs (ParseDocxBlockBullet E rec q b lvl)
               | DocxBlockTypeOrdered \<Rightarrow>
                   withPrefix tabs (ParseDocxBlockOrdered E rec q b lvl)
               | DocxBlockTypeCode \<Rightarrow> withText tabs q (ParseDocxBlockCode E q b)
               | DocxBlockTypeQuote \<Rightarrow>
                   withText (tabs @ ''> '') q (ParseDocxBlockText E q (Quote b))
               | DocxBlockTypeEquation \<Rightarrow>
                   withText (tabs @ ''$$'' @ [NL]) q
                     (rbind (ParseDocxBlockText E q (Equation b))
                        (\<lambda>t. Inr (t @ [NL] @ ''$$'' @ [NL])))
               | DocxBlockTypeTodo \<Rightarrow> withText tabs q (ParseDocxBlockTodo E q b)
               | DocxBlockTypeBitable \<Rightarrow> withText tabs q (ParseDocxBlockBitable q (Bitable b))
               | DocxBlockTypeCallout \<Rightarrow> withPrefix tabs (ParseDocxBlockCallout rec q b)
               | DocxBlockTypeDiagram \<Rightarrow> withText tabs q (ParseDocxBlockDiagram (Diagram b))
               | DocxBlockTypeDivider \<Rightarrow> Inr (tabs @ ''---'' @ [NL], q)
               | DocxBlockTypeFile \<Rightarrow> withText tabs q (ParseDocxBlockFile E q (File b))
               | DocxBlockTypeGrid \<Rightarrow> withPrefix tabs (ParseDocxBlockGrid rec q b lvl)
               | DocxBlockTypeIframe \<Rightarrow> withText tabs q (ParseDocxBlockIframe (Iframe b))
               | DocxBlockTypeImage \<Rightarrow> withPrefix tabs (ParseDocxBlockImage q (Image b))
               | DocxBlockTypeSheet \<Rightarrow> withText tabs q (ParseDocxBlockSheet q (Sheet b))
               | DocxBlockTypeTable \<Rightarrow> withPrefix tabs (ParseDocxBlockTable rec q (Table b))
               | DocxBlockTypeTableCell \<Rightarrow> withPrefix tabs (ParseDocxBlockTableCell rec q b)
               | DocxBlockTypeQuoteContainer \<Rightarrow>
                   withPrefix tabs (ParseDocxBlockQuoteContainer rec q b)
               | _ \<Rightarrow> render_children rec q (Children b) lvl [] tabs)) p
     (ownImgTokens b @ childTokens T (blockMap p) (descend (blockMap p) b))"
    by (cases "BlockType b")
       (simp_all add: ownImgTokens_def descend_def intros appends_return)
qed

lemma ParseDocxBlock_appendsTokens: "appendsTokens (ParseDocxBlock E fuel) (imgTraversal fuel)"
proof (induction fuel)
  case 0
  show ?case by (simp add: appendsTokens_def appends_def)
next
  case (Suc fuel)
  show ?case
    unfolding appendsTokens_def
  proof (intro allI)
    fix p blk lvl
    show "appends (\<lambda>q. ParseDocxBlock E (Suc fuel) q blk lvl) p (imgTraversal (Suc fuel) (blockMap p) blk)"
    proof (cases blk)
      case None
      then show ?thesis
        by (simp add: appends_def ParseDocxBlock_body_def rbind_def split: sum.splits)
    next
      case (Some b)
      with body_appends_block [OF Suc, of E b lvl p] show ?thesis
        by (simp add: childTokens_def)
    qed
  qed
qed

lemma fold_blockMap:
  "fold (\<lambda>block m. m(BlockID block \<mapsto> block)) blocks m
     = m ++ map_of (rev (map (\<lambda>block. (BlockID block, block)) blocks))"
  by (induction blocks arbitrary: m) (simp_all add: map_add_upd_left)

lemma fold_blockMap_twice:
  "fold (\<lambda>block m. m(BlockID block \<mapsto> block)) blocks
     (fold (\<lambda>block m. m(BlockID block \<mapsto> block)) blocks m)
   = fold (\<lambda>block m. m(BlockID block \<mapsto> block)) blocks m"
proof -
  have "(m ++ n) ++ n = m ++ n" for m n :: "'k \<rightharpoonup> 'v"
    by (rule ext) (simp add: map_add_def split: option.splits)
  then show ?thesis by (simp add: fold_blockMap)
qed

text \<open>
  C6, as amended. When the rendering of a document returns, it has appended to
  \<open>ImgTokens\<close> the tokens of the image blocks in the order of the traversal, one for
  each visit of an image block by the renderer; and rendering the same blocks again with
  the parser that came back returns the same Markdown and appends the same tokens once
  more. The collaborators (the environment and the client of the parser) are the same
  in both renderings.
\<close>

theorem rerender_identical:
  assumes "ParseDocxContent E fuel p doc blocks = Inr (md, p')"
  shows "ImgTokens p' =
           ImgTokens p @ imgTraversal fuel (blockMap p') (blockMap p' (DocumentID doc)) \<and>
         ParseDocxContent E fuel p' doc blocks =
           Inr (md, p'\<lparr>ImgTokens := ImgTokens p'
                       @ imgTraversal fuel (blockMap p') (blockMap p' (DocumentID doc))\<rparr>)"
proof -
  let ?m = "fold (\<lambda>block m. m(BlockID block \<mapsto> block)) blocks (blockMap p)"
  let ?p1 = "p\<lparr>blockMap := ?m\<rparr>"
  let ?toks = "imgTraversal fuel ?m (?m (DocumentID doc))"
  have run: "ParseDocxBlock E fuel ?p1 (?m (DocumentID doc)) 0 = Inr (md, p')"
    using assms by (simp add: ParseDocxContent_def Let_def)
  have ap: "appends (\<lambda>q. ParseDocxBlock E fuel q (?m (DocumentID doc)) 0) ?p1 ?toks"
    using appendsTokensD [OF ParseDocxBlock_appendsTokens, of E fuel "?m (DocumentID doc)" 0 ?p1]
    by simp
  have p': "p' = ?p1\<lparr>ImgTokens := ImgTokens ?p1 @ ?toks\<rparr>"
    by (rule appends_result [OF ap run])
  then have bm: "blockMap p' = ?m" by simp
  have again: "fold (\<lambda>block m. m(BlockID block \<mapsto> block)) blocks (blockMap p') = blockMap p'"
    by (simp add: bm fold_blockMap_twice)
  have content: "ParseDocxContent E fuel p' doc blocks
      = ParseDocxBlock E fuel p' (blockMap p' (DocumentID doc)) 0"
    by (simp add: ParseDocxContent_def Let_def again)
  have "ParseDocxBlock E fuel (?p1\<lparr>ImgTokens := ImgTokens p'\<rparr>) (?m (DocumentID doc)) 0
          = Inr (md, ?p1\<lparr>ImgTokens := ImgTokens p' @ ?toks\<rparr>)"
    by (rule appendsD [OF ap run])
  moreover have "?p1\<lparr>ImgTokens := ImgTokens p'\<rparr> = p'" by (simp add: p')
  moreover have "?p1\<lparr>ImgTokens := ImgTokens p' @ ?toks\<rparr> = p'\<lparr>ImgTokens := ImgTokens p' @ ?toks\<rparr>"
    by (simp add: p')
  ultimately have "ParseDocxBlock E fuel p' (?m (DocumentID doc)) 0
          = Inr (md, p'\<lparr>ImgTokens := ImgTokens p' @ ?toks\<rparr>)" by simp
  then have "ParseDocxContent E fuel p' doc blocks
          = Inr (md, p'\<lparr>ImgTokens := ImgTokens p' @ ?toks\<rparr>)"
    by (simp add: content bm)
  moreover have "ImgTokens p' = ImgTokens p @ ?toks" by (simp add: p')
  ultimately show ?thesis by (simp add: bm)
qed

lemma imageBlocks_first:
  "ParseDocxContent exampleEnv 3 (NewParser \<lparr>UseHTMLTags = False\<rparr> None) imageDoc imageBlocks =
     Inr (imageMarkdown, (parserOf False imageBlocks)\<lparr>ImgTokens := [''tok1'', ''tok2'']\<rparr>)"
  by (simp add: ParseDocxContent_def imageDoc_def imageBlocks_def imageMarkdown_def
        example_defs render_defs eval_nat_numeral)

text \<open>
  A page with an image and a bullet that has an image: the first rendering of a fresh
  parser leaves the two tokens, the second rendering gives the same Markdown.
\<close>

theorem rerender_identical_witness:
  "ParseDocxContent exampleEnv 3 (NewParser \<lparr>UseHTMLTags = False\<rparr> None) imageDoc imageBlocks =
     Inr (imageMarkdown, (parserOf False imageBlocks)\<lparr>ImgTokens := [''tok1'', ''tok2'']\<rparr>) \<and>
   ParseDocxContent exampleEnv 3 ((parserOf False imageBlocks)\<lparr>ImgTokens := [''tok1'', ''tok2'']\<rparr>)
       imageDoc imageBlocks =
     Inr (imageMarkdown,
          (parserOf False imageBlocks)\<lparr>ImgTokens := [''tok1'', ''tok2'', ''tok1'', ''tok2'']\<rparr>) \<and>
   imgTraversal 3 (blockMap (parserOf False imageBlocks)) (Some (imageBlocks ! 0)) = [''tok1'', ''tok2'']"
proof -
  have tr: "imgTraversal 3 (blockMap (parserOf False imageBlocks))
              (blockMap (parserOf False imageBlocks) ''d'') = [''tok1'', ''tok2'']"
    by (simp add: imageBlocks_def example_defs eval_nat_numeral descend_def ownImgTokens_def)
  have d: "blockMap (parserOf False imageBlocks) ''d'' = Some (imageBlocks ! 0)"
    by (simp add: imageBlocks_def example_defs)
  have p: "blockMap ((parserOf False imageBlocks)\<lparr>ImgTokens := [''tok1'', ''tok2'']\<rparr>)
             = blockMap (parserOf False imageBlocks)"
    by simp
  have id: "DocumentID imageDoc = ''d''" by (simp add: imageDoc_def)
  have two: "ParseDocxContent exampleEnv 3
       ((parserOf False imageBlocks)\<lparr>ImgTokens := [''tok1'', ''tok2'']\<rparr>) imageDoc imageBlocks =
     Inr (imageMarkdown,
          (parserOf False imageBlocks)\<lparr>ImgTokens := [''tok1'', ''tok2''] @ [''tok1'', ''tok2'']\<rparr>)"
    using rerender_identical [OF imageBlocks_first] unfolding p id tr by simp
  from d tr have "imgTraversal 3 (blockMap (parserOf False imageBlocks)) (Some (imageBlocks ! 0))
      = [''tok1'', ''tok2'']" by simp
  with two imageBlocks_first show ?thesis by simp
qed

text \<open>
  C6 as stated counts one token for every image block. The index of the first document
  holds an image block below a text paragraph; the renderer does not visit the children
  of a text block, and \<open>ImgTokens\<close> stays empty. The second document is rendered
  twice with the same parser, and \<open>ImgTokens\<close> then holds every token twice.
\<close>

theorem img_tokens_counterexample:
  "ParseDocxContent exampleEnv 3 (NewParser \<lparr>UseHTMLTags = False\<rparr> None) imageDoc nestedImageBlocks
     = Inr (''# T'' @ [NL, NL] @ ''x'' @ [NL, NL], parserOf False nestedImageBlocks) \<and>
   blockMap (parserOf False nestedImageBlocks) ''i'' = Some (nestedImageBlocks ! 2) \<and>
   BlockType (nestedImageBlocks ! 2) = DocxBlockTypeImage \<and>
   ImgTokens (parserOf False nestedImageBlocks) = [] \<and>
   ParseDocxContent exampleEnv 3 ((parserOf False imageBlocks)\<lparr>ImgTokens := [''tok1'', ''tok2'']\<rparr>)
       imageDoc imageBlocks
     = Inr (imageMarkdown,
            (parserOf False imageBlocks)\<lparr>ImgTokens := [''tok1'', ''tok2'', ''tok1'', ''tok2'']\<rparr>)"
  by (simp add: ParseDocxContent_def imageDoc_def nestedImageBlocks_def imageBlocks_def
        imageMarkdown_def example_defs render_defs eval_nat_numeral)

section \<open>Unresolved children\<close>


lemma rbind_Inr [simp]: "rbind (Inr x) f = f x"
  by (simp add: rbind_def)

lemma rbind_Inl [simp]: "rbind (Inl e) f = Inl e"
  by (simp add: rbind_def)












section \<open>Indentation\<close>


lemma indentedBy_append: "0 \<le> lvl \<Longrightarrow> indentedBy lvl (replicate (nat lvl) TAB @ s)"
  by (simp add: indentedBy_def)













end
